theory Spec2Isabelle
  imports Main
begin

section \<open>Values read from a recipe file\<close>

text \<open>
  A recipe is a parsed JSON file, and the validators test its values with
  \<^verbatim>\<open>typeof\<close>, \<^verbatim>\<open>Array.isArray\<close> and JavaScript truthiness
  (\<^verbatim>\<open>! value\<close>).  A property that is not there reads as \<open>JUndefined\<close>.
  Numbers are integers here (no \<^verbatim>\<open>NaN\<close>).
\<close>

datatype json =
    JUndefined
  | JNull
  | JBool bool
  | JNum int
  | JStr string
  | JArr "json list"
  | JObj "(string \<times> json) list"

text \<open>\<^verbatim>\<open>! value\<close>: the falsy values are undefined, null, false, 0 and the empty string.
  Every array and every object is truthy, the empty ones too.\<close>

fun falsy :: "json \<Rightarrow> bool" where
  "falsy JUndefined = True"
| "falsy JNull = True"
| "falsy (JBool b) = (\<not> b)"
| "falsy (JNum n) = (n = 0)"
| "falsy (JStr s) = (s = [])"
| "falsy (JArr xs) = False"
| "falsy (JObj kvs) = False"

text \<open>\<^verbatim>\<open>typeof v !== 'string' || v === ''\<close>\<close>

fun notNonEmptyString :: "json \<Rightarrow> bool" where
  "notNonEmptyString (JStr s) = (s = [])"
| "notNonEmptyString v = True"

text \<open>\<^verbatim>\<open>typeof v !== 'boolean'\<close>\<close>

fun notBoolean :: "json \<Rightarrow> bool" where
  "notBoolean (JBool b) = False"
| "notBoolean v = True"

section \<open>Errors\<close>

text \<open>
  Every \<^verbatim>\<open>throw new Error(`ERROR_...`)\<close> of the source is a value.  The many
  \<^verbatim>\<open>ERROR_INVALID_RECIPE\<close> messages are told apart by what they complain about.
\<close>

datatype invalid_recipe =
    NotValidated
  | MissingSettings "string list"
  | InvalidRecipeType json
  | TargetOrgKey string

datatype error =
    ERROR_INVALID_RECIPE invalid_recipe
  | ERROR_CONFIG_NOT_FOUND
  | ERROR_ENGINE_NOT_INITIALIZED
  | ERROR_NO_STEPS string
  | ERROR_RECIPE_NOT_COMPILED
  | ERROR_UNKNOWN_ACTION string json
  | ERROR_INVALID_ENGINE string
  | ERROR_INVALID_ENGINE_CONTEXT string
  | ERROR_UNEXPECTED_LISTR_RESULT string
  | DoubleFinalization
  | errInvalidDirectory string
  | TypeError
  | SyntaxError
  | OtherError string

section \<open>Recipe steps and step groups\<close>

record AppxEngineStep =
  stepName :: string
  description :: string
  action :: string
  options :: json
  onSuccess :: "string option"
  onError :: "string option"

record AppxEngineStepGroup =
  stepGroupName :: string
  "alias" :: string
  description :: string
  recipeSteps :: "AppxEngineStep list"

section \<open>The task compiler\<close>

text \<open>\<^verbatim>\<open>this.engineContext.skipActions.includes(actionToCheck)\<close>\<close>

definition skipAction :: "string list \<Rightarrow> string \<Rightarrow> bool" where
  "skipAction skipActions actionToCheck = (actionToCheck \<in> set skipActions)"

definition skipGroup :: "string list \<Rightarrow> string \<Rightarrow> bool" where
  "skipGroup skipGroups groupToCheck = (groupToCheck \<in> set skipGroups)"

text \<open>The \<^verbatim>\<open>for\<close> loop of \<^verbatim>\<open>stepGroupHasActiveTasks\<close>: the first step that is not
  skipped answers true.\<close>

fun anyActiveStep :: "string list \<Rightarrow> AppxEngineStep list \<Rightarrow> bool" where
  "anyActiveStep skipActions [] = False"
| "anyActiveStep skipActions (step # steps) =
     (if skipAction skipActions (action step) = False then True
      else anyActiveStep skipActions steps)"

definition stepGroupHasActiveTasks :: "string list \<Rightarrow> AppxEngineStepGroup \<Rightarrow> bool" where
  "stepGroupHasActiveTasks skipActions stepGroupToCheck =
     (if length (recipeSteps stepGroupToCheck) < 1 then False
      else anyActiveStep skipActions (recipeSteps stepGroupToCheck))"

text \<open>
  A Listr task is a title and a closure.  The closure of a parent task holds its step
  group and, when Listr runs it, calls \<^verbatim>\<open>compileSubTasks\<close> on that group; the closure
  of a sub task holds its step and calls \<^verbatim>\<open>executeStep\<close>.  The model keeps what the
  closure captured.
\<close>

record parent_task =
  title :: string
  task_group :: AppxEngineStepGroup

record sub_task =
  sub_title :: string
  task_step :: AppxEngineStep

fun compileParentTasks ::
  "string list \<Rightarrow> string list \<Rightarrow> AppxEngineStepGroup list \<Rightarrow> parent_task list" where
  "compileParentTasks skipGroups skipActions [] = []"
| "compileParentTasks skipGroups skipActions (recipeStepGroup # rest) =
     (if skipGroup skipGroups (alias recipeStepGroup) = True
        then compileParentTasks skipGroups skipActions rest
      else if stepGroupHasActiveTasks skipActions recipeStepGroup = False
        then compileParentTasks skipGroups skipActions rest
      else \<lparr> title = stepGroupName recipeStepGroup, task_group = recipeStepGroup \<rparr>
             # compileParentTasks skipGroups skipActions rest)"

fun addSubTasks :: "string list \<Rightarrow> AppxEngineStep list \<Rightarrow> sub_task list" where
  "addSubTasks skipActions [] = []"
| "addSubTasks skipActions (recipeStep # rest) =
     (if skipAction skipActions (action recipeStep) = True
        then addSubTasks skipActions rest
      else \<lparr> sub_title = stepName recipeStep, task_step = recipeStep \<rparr>
             # addSubTasks skipActions rest)"

definition compileSubTasks :: "string list \<Rightarrow> AppxEngineStepGroup \<Rightarrow> error + sub_task list" where
  "compileSubTasks skipActions recipeStepGroup =
     (if length (recipeSteps recipeStepGroup) < 1
        then Inl (ERROR_NO_STEPS (stepGroupName recipeStepGroup))
      else Inr (addSubTasks skipActions (recipeSteps recipeStepGroup)))"

text \<open>What Listr does with a parent task when it runs it.\<close>

definition runParentTask :: "string list \<Rightarrow> parent_task \<Rightarrow> error + sub_task list" where
  "runParentTask skipActions t = compileSubTasks skipActions (task_group t)"


section \<open>Target orgs and the engine context\<close>

text \<open>A target org as it stands in the recipe file: \<^verbatim>\<open>validateTargetOrg\<close> tests the
  type of every field, so the fields are JSON values.\<close>

record TargetOrg =
  orgName :: json
  "alias" :: json
  description :: json
  isScratchOrg :: json
  scratchDefJson :: json
  orgReqsJson :: json

text \<open>
  \<^verbatim>\<open>AppxEngineContext\<close>.  The constructor starts it as \<^verbatim>\<open>{}\<close> and the concrete
  engine fills it, so every field may be undefined (\<open>None\<close>); for the two skip lists
  \<open>None\<close> stands for any value that is not an array.
\<close>

record AppxEngineContext =
  compileOptions :: json
  recipeObserver :: json
  executing :: "bool option"
  initialized :: "bool option"
  haltOnError :: "bool option"
  skipGroups :: "string list option"
  skipActions :: "string list option"
  devHubAlias :: "string option"
  projectContext :: json
  logLevel :: json
  targetOrg :: "TargetOrg option"

section \<open>Result nodes\<close>

datatype SfdxFalconResultType = COMMAND | RECIPE | ENGINE | ACTION | EXECUTOR | UNKNOWN

datatype SfdxFalconResultStatus = INITIALIZED | RUNNING | SUCCESS | ERROR | FAILURE | WARNING

datatype SfdxFalconCommandType = APPX_PACKAGE | APPX_DEMO | APPX_EXTENSION | UNKNOWN_COMMAND

text \<open>The flags and arguments of a command that \<^verbatim>\<open>sfdxFalconCommandInit\<close> reads;
  one that was not given is \<open>None\<close>.\<close>

record command_flags =
  outputdir :: "string option"
  projectdir :: "string option"
  targetdir :: "string option"
  recipefile :: "string option"
  configfile :: "string option"
  flag_extendedOptions :: "string option"
  falcondebug :: "string option"
  falcondebugerror :: "bool option"
  falcondebugsuccess :: "bool option"
  falcondebugdepth :: "int option"

record command_args =
  GIT_REMOTE_URI :: "string option"
  GIT_CLONE_DIR :: "string option"

record SfdxFalconCommandResultDetail =
  commandName :: string
  commandType :: SfdxFalconCommandType
  commandFlags :: command_flags
  commandArgs :: command_args
  commandExitCode :: int
  enabledDebuggers :: "string list"

text \<open>The detail of the ENGINE result, as the constructor of \<^verbatim>\<open>AppxRecipeEngine\<close>
  lays it out.  \<open>detail_engineContext\<close> holds the context as it was when the detail
  was filled in.\<close>

record engine_result_detail =
  detail_projectContext :: json
  detail_recipeName :: string
  detail_engineName :: string
  detail_engineContext :: "AppxEngineContext option"
  supportedActions :: "string list option"

datatype detail =
    CommandDetail SfdxFalconCommandResultDetail
  | EngineDetail engine_result_detail
  | OtherDetail json

text \<open>
  Modelled from the spec: the class \<^verbatim>\<open>SfdxFalconResult\<close>
  (\<^verbatim>\<open>modules/sfdx-falcon-result\<close>) is not among the source files; the node and its
  operations follow sections 3 and 4.1 of the specification.  The two timestamps are
  left out.
\<close>

datatype result = SfdxFalconResult
  (name: string)
  (rtype: SfdxFalconResultType)
  (status: SfdxFalconResultStatus)
  (detail: "detail option")
  (children: "result list")
  (bubbleError: bool)
  (bubbleFailure: bool)
  (errObj: "error option")

text \<open>Whatever a \<^verbatim>\<open>throw\<close> or a rejected promise carries: a result node or
  something else (an \<^verbatim>\<open>Error\<close>).\<close>

datatype thrown = ThrownResult result | ThrownError error

text \<open>Modelled from the spec: \<open>create(name, type, {startNow, bubbleError, bubbleFailure})\<close>
  gives a new node in INITIALIZED or RUNNING state.\<close>

definition newResult ::
  "string \<Rightarrow> SfdxFalconResultType \<Rightarrow> bool \<Rightarrow> bool \<Rightarrow> bool \<Rightarrow> result" where
  "newResult nm ty startNow bErr bFail =
     SfdxFalconResult nm ty (if startNow then RUNNING else INITIALIZED) None [] bErr bFail None"

text \<open>Modelled from the spec: the fields of a node that its operations write
  (\<open>status\<close>, \<open>errObj\<close>, \<open>detail\<close>, and \<open>children\<close>, which is append-only).\<close>

fun setStatus :: "SfdxFalconResultStatus \<Rightarrow> result \<Rightarrow> result" where
  "setStatus s (SfdxFalconResult nm ty st d cs bErr bFail eo) =
     SfdxFalconResult nm ty s d cs bErr bFail eo"

fun setErrObj :: "error option \<Rightarrow> result \<Rightarrow> result" where
  "setErrObj e (SfdxFalconResult nm ty st d cs bErr bFail eo) =
     SfdxFalconResult nm ty st d cs bErr bFail e"

text \<open>Modelled from the spec: \<^verbatim>\<open>setDetail(detail)\<close> stores the opaque payload of the
  node.\<close>

fun setDetail :: "detail \<Rightarrow> result \<Rightarrow> result" where
  "setDetail d' (SfdxFalconResult nm ty st d cs bErr bFail eo) =
     SfdxFalconResult nm ty st (Some d') cs bErr bFail eo"

fun pushChild :: "result \<Rightarrow> result \<Rightarrow> result" where
  "pushChild c (SfdxFalconResult nm ty st d cs bErr bFail eo) =
     SfdxFalconResult nm ty st d (cs @ [c]) bErr bFail eo"

text \<open>Modelled from the spec: the terminal states are SUCCESS, ERROR, FAILURE and
  WARNING; there is no transition out of a terminal state.\<close>

fun terminal :: "SfdxFalconResultStatus \<Rightarrow> bool" where
  "terminal INITIALIZED = False"
| "terminal RUNNING = False"
| "terminal s = True"

text \<open>Modelled from the spec: \<open>success(detail)\<close>, \<open>error(errObj)\<close>,
  \<open>failure(detail)\<close>, \<open>warning(detail)\<close> are the terminal transitions; each fails
  with \<open>DoubleFinalization\<close> if the node is already terminal.\<close>

definition finishResult :: "SfdxFalconResultStatus \<Rightarrow> result \<Rightarrow> error + result" where
  "finishResult finalStatus r =
     (if terminal (status r) then Inl DoubleFinalization else Inr (setStatus finalStatus r))"

text \<open>Modelled from the spec: \<open>success(detail)\<close>; a detail that is given is stored.\<close>

definition result_success :: "detail option \<Rightarrow> result \<Rightarrow> error + result" where
  "result_success d r =
     (case finishResult SUCCESS r of
        Inl e \<Rightarrow> Inl e
      | Inr r' \<Rightarrow> Inr (case d of None \<Rightarrow> r' | Some d' \<Rightarrow> setDetail d' r'))"

text \<open>Modelled from the spec: \<open>error(errObj)\<close>; \<open>errObj\<close> is set only when the status
  becomes ERROR.\<close>

definition result_error :: "error option \<Rightarrow> result \<Rightarrow> error + result" where
  "result_error e r =
     (case finishResult ERROR r of
        Inl e' \<Rightarrow> Inl e'
      | Inr r' \<Rightarrow> Inr (setErrObj e r'))"

text \<open>Modelled from the spec: \<open>failure(detail)\<close>.\<close>

definition result_failure :: "detail option \<Rightarrow> result \<Rightarrow> error + result" where
  "result_failure d r =
     (case finishResult FAILURE r of
        Inl e \<Rightarrow> Inl e
      | Inr r' \<Rightarrow> Inr (case d of None \<Rightarrow> r' | Some d' \<Rightarrow> setDetail d' r'))"

text \<open>Modelled from the spec: \<open>warning(detail)\<close>.\<close>

definition result_warning :: "detail option \<Rightarrow> result \<Rightarrow> error + result" where
  "result_warning d r =
     (case finishResult WARNING r of
        Inl e \<Rightarrow> Inl e
      | Inr r' \<Rightarrow> Inr (case d of None \<Rightarrow> r' | Some d' \<Rightarrow> setDetail d' r'))"

text \<open>
  Modelled from the spec: \<open>addChild(child)\<close> appends the child unconditionally.  If the
  child is in ERROR and the node bubbles errors, the node goes to ERROR with the
  child's \<open>errObj\<close> as cause and the caller is told to abort: the node itself is thrown
  (the engine's own comments: "addChild() will throw", and what it throws "SHOULD always
  be an ENGINE Result (this.falconEngineResult, to be exact)").  The same for FAILURE.
  Otherwise the child is recorded and the call returns.  The value is the pair of what
  was thrown (\<open>None\<close> when the call returned) and the node as the call left it.
\<close>

definition addChild :: "result \<Rightarrow> result \<Rightarrow> thrown option \<times> result" where
  "addChild child r =
     (let r1 = pushChild child r in
      if status child = ERROR \<and> bubbleError r1 then
        (case result_error (errObj child) r1 of
           Inl e \<Rightarrow> (Some (ThrownError e), r1)
         | Inr r2 \<Rightarrow> (Some (ThrownResult r2), r2))
      else if status child = FAILURE \<and> bubbleFailure r1 then
        (case result_failure None r1 of
           Inl e \<Rightarrow> (Some (ThrownError e), r1)
         | Inr r2 \<Rightarrow> (Some (ThrownResult r2), r2))
      else (None, r1))"

text \<open>Modelled from the spec: \<open>wrapRejectedPromise(value, defaultName, defaultType)\<close>
  returns a result node unchanged and wraps anything else as the \<open>errObj\<close> of a new
  node of the default name and type in ERROR status.  The specification does not give
  the bubble flags of the new node; nothing is ever added to it here.\<close>

fun wrapRejectedPromise :: "thrown \<Rightarrow> string \<Rightarrow> SfdxFalconResultType \<Rightarrow> result" where
  "wrapRejectedPromise (ThrownResult r) defaultName defaultType = r"
| "wrapRejectedPromise (ThrownError e) defaultName defaultType =
     SfdxFalconResult defaultName defaultType ERROR None [] True True (Some e)"

text \<open>Modelled from the spec: \<open>validate(candidate, expectedType, expectedStatus)\<close> is a
  predicate; it answers false, it does not throw.\<close>

fun validate :: "thrown \<Rightarrow> SfdxFalconResultType \<Rightarrow> SfdxFalconResultStatus \<Rightarrow> bool" where
  "validate (ThrownResult r) expectedType expectedStatus =
     (rtype r = expectedType \<and> status r = expectedStatus)"
| "validate (ThrownError e) expectedType expectedStatus = False"

text \<open>
  Modelled from the spec: \<^verbatim>\<open>result.throw(error)\<close> of \<^verbatim>\<open>SfdxFalconResult\<close>, which is
  not among the source files.  Section 4.5: what propagated without the expected shape
  "is wrapped in a synthetic error before being re-thrown, guaranteeing callers always
  receive a well-formed ENGINE result", that is one of type ENGINE and status ERROR.  So
  the node takes status ERROR with the given error as its \<open>errObj\<close>, and the node is
  thrown.
\<close>

definition result_throw :: "error \<Rightarrow> result \<Rightarrow> thrown \<times> result" where
  "result_throw e r =
     (let r' = setErrObj (Some e) (setStatus ERROR r) in (ThrownResult r', r'))"

section \<open>The recipe as the engine sees it\<close>

text \<open>
  The members of \<^verbatim>\<open>SfdxFalconRecipe\<close> that come from the recipe file, and the
  \<open>validated\<close> flag.  \<^verbatim>\<open>read()\<close> copies the scalar members as they are in the
  file, so they are JSON values; the step groups are used by the engine as
  \<^verbatim>\<open>Array<AppxEngineStepGroup>\<close>.
\<close>

record recipe_members =
  recipeName :: json
  recipeDescription :: json
  recipeType :: json
  recipeVersion :: json
  schemaVersion :: json
  recipeOptions :: json
  recipeStepGroups :: "AppxEngineStepGroup list"
  handlers :: json
  validated :: "bool option"

section \<open>The engine\<close>

text \<open>
  An action's \<^verbatim>\<open>execute(actionContext, actionOptions)\<close> works on the world outside
  the program (the target org), of some type \<open>'w\<close>, and its promise resolves with a
  result node or rejects with anything.
\<close>

datatype settled = Resolved result | Rejected thrown

type_synonym 'w AppxEngineAction = "AppxEngineContext \<Rightarrow> json \<Rightarrow> 'w \<Rightarrow> settled \<times> 'w"

text \<open>
  \<^verbatim>\<open>AppxRecipeEngine\<close>.  The registry is a \<^verbatim>\<open>Map\<close> from action names to actions,
  here a list of pairs read with \<open>map_of\<close>; the constructor does not create it, so it
  is \<open>None\<close> until \<^verbatim>\<open>initializeActionMap()\<close> assigns one.  For the two lists of
  injected step groups \<open>None\<close> stands for any value that is not an array.
  \<open>listrTasks\<close> is \<^verbatim>\<open>null\<close> (\<open>None\<close>) until tasks are compiled.
\<close>

record 'w AppxRecipeEngine =
  actionExecutorMap :: "(string \<times> 'w AppxEngineAction) list option"
  listrTasks :: "parent_task list option"
  recipe :: "recipe_members option"
  falconEngineResult :: result
  falconEngineResultDetail :: engine_result_detail
  preBuildStepGroups :: "AppxEngineStepGroup list option"
  postBuildStepGroups :: "AppxEngineStepGroup list option"
  engineContext :: AppxEngineContext

definition emptyContext :: AppxEngineContext where
  "emptyContext =
     \<lparr> compileOptions = JUndefined, recipeObserver = JUndefined, executing = None,
       initialized = None, haltOnError = None, skipGroups = None, skipActions = None,
       devHubAlias = None, projectContext = JUndefined, logLevel = JUndefined,
       targetOrg = None \<rparr>"

text \<open>The constructor.\<close>

definition newEngine :: "string \<Rightarrow> string \<Rightarrow> 'w AppxRecipeEngine" where
  "newEngine engineName rName =
     \<lparr> actionExecutorMap = None,
       listrTasks = None,
       recipe = None,
       falconEngineResult = newResult (engineName @ '':'' @ rName) ENGINE False True True,
       falconEngineResultDetail =
         \<lparr> detail_projectContext = JNull, detail_recipeName = rName,
           detail_engineName = engineName, detail_engineContext = None,
           supportedActions = None \<rparr>,
       preBuildStepGroups = Some [],
       postBuildStepGroups = Some [],
       engineContext = emptyContext \<rparr>"

text \<open>\<^verbatim>\<open>Map.size\<close>: the number of keys.\<close>

definition mapSize :: "(string \<times> 'a) list \<Rightarrow> nat" where
  "mapSize m = length (remdups (map fst m))"

text \<open>
  A method of the engine either returns or throws, and in both cases leaves the engine
  as it has changed it.  \<open>andThen f g\<close> is \<^verbatim>\<open>f(); g();\<close>: \<open>g\<close> runs only if \<open>f\<close>
  returned.
\<close>

type_synonym 's may_throw = "'s \<Rightarrow> thrown option \<times> 's"

definition andThen :: "'s may_throw \<Rightarrow> 's may_throw \<Rightarrow> 's may_throw" where
  "andThen f g s = (case f s of (None, s') \<Rightarrow> g s' | (Some t, s') \<Rightarrow> (Some t, s'))"

definition throwError :: "error \<Rightarrow> 's may_throw" where
  "throwError e s = (Some (ThrownError e), s)"

text \<open>The abstract methods, which the concrete engine (not among the source files)
  implements.\<close>

datatype listr_settled = ListrResolved json | ListrRejected thrown

record 'w engine_hooks =
  initializeRecipeEngineContext :: "'w AppxRecipeEngine may_throw"
  initializeTargetOrg :: "'w AppxRecipeEngine may_throw"
  initializePreBuildStepGroups :: "'w AppxRecipeEngine may_throw"
  initializePostBuildStepGroups :: "'w AppxRecipeEngine may_throw"
  initializeSkipActions :: "'w AppxRecipeEngine may_throw"
  initializeSkipGroups :: "'w AppxRecipeEngine may_throw"
  initializeActionMap :: "'w AppxRecipeEngine may_throw"
  executeEngine :: "json \<Rightarrow> 'w AppxRecipeEngine \<Rightarrow> 'w \<Rightarrow> listr_settled \<times> 'w AppxRecipeEngine \<times> 'w"

text \<open>\<^verbatim>\<open>initializeEngineResultDetail\<close>: \<^verbatim>\<open>this.actionExecutorMap.keys()\<close> is a
  \<^verbatim>\<open>TypeError\<close> when there is no registry.\<close>

definition initializeEngineResultDetail :: "'w AppxRecipeEngine may_throw" where
  "initializeEngineResultDetail e =
     (case actionExecutorMap e of
        None \<Rightarrow>
          (Some (ThrownError TypeError),
           e\<lparr> falconEngineResultDetail := (falconEngineResultDetail e)
                 \<lparr> detail_projectContext := projectContext (engineContext e),
                   detail_engineContext := Some (engineContext e) \<rparr> \<rparr>)
      | Some m \<Rightarrow>
          (let d = (falconEngineResultDetail e)
                 \<lparr> detail_projectContext := projectContext (engineContext e),
                   detail_engineContext := Some (engineContext e),
                   supportedActions := Some (remdups (map fst m)) \<rparr>
           in (None, e\<lparr> falconEngineResultDetail := d,
                        falconEngineResult := setDetail (EngineDetail d) (falconEngineResult e) \<rparr>)))"

definition validateEngine :: "'w AppxRecipeEngine may_throw" where
  "validateEngine e =
     (if (case actionExecutorMap e of Some m \<Rightarrow> mapSize m < 1 | None \<Rightarrow> False)
        then throwError (ERROR_INVALID_ENGINE ''actionExecutorMap'') e
      else if preBuildStepGroups e = None
        then throwError (ERROR_INVALID_ENGINE ''preBuildStepGroups'') e
      else if postBuildStepGroups e = None
        then throwError (ERROR_INVALID_ENGINE ''postBuildStepGroups'') e
      else if (case targetOrg (engineContext e) of
                 None \<Rightarrow> True
               | Some org \<Rightarrow> falsy (TargetOrg.alias org))
        then throwError (ERROR_INVALID_ENGINE_CONTEXT ''targetOrg'') e
      else if skipActions (engineContext e) = None
        then throwError (ERROR_INVALID_ENGINE_CONTEXT ''skipActions'') e
      else if skipGroups (engineContext e) = None
        then throwError (ERROR_INVALID_ENGINE_CONTEXT ''skipGroups'') e
      else (None, e\<lparr> engineContext := (engineContext e)\<lparr> initialized := Some True \<rparr> \<rparr>))"

text \<open>
  \<^verbatim>\<open>compileAllTasks\<close>.  Spreading a value that is not an array, reading
  \<^verbatim>\<open>recipeStepGroups\<close> of a recipe that is not there and calling \<^verbatim>\<open>includes\<close> on a
  skip list that is not an array are \<^verbatim>\<open>TypeError\<close>s; inside \<^verbatim>\<open>compile\<close> none of
  them can happen, since \<^verbatim>\<open>validateEngine\<close> has run.
\<close>

definition compileAllTasks :: "'w AppxRecipeEngine may_throw" where
  "compileAllTasks e =
     (if initialized (engineContext e) \<noteq> Some True
        then throwError ERROR_ENGINE_NOT_INITIALIZED e
      else
        (case (preBuildStepGroups e, recipe e, postBuildStepGroups e,
               skipGroups (engineContext e), skipActions (engineContext e)) of
           (Some pre, Some r, Some post, Some sg, Some sa) \<Rightarrow>
             (let completeRecipeStepGroups = pre @ recipeStepGroups r @ post
              in (None, e\<lparr> listrTasks :=
                             Some (compileParentTasks sg sa completeRecipeStepGroups) \<rparr>))
         | _ \<Rightarrow> throwError TypeError e))"

definition compile ::
  "'w engine_hooks \<Rightarrow> recipe_members \<Rightarrow> json \<Rightarrow> 'w AppxRecipeEngine may_throw" where
  "compile hooks rcp opts e =
     (if validated rcp \<noteq> Some True
        then throwError (ERROR_INVALID_RECIPE NotValidated) e
      else
        (andThen (initializeRecipeEngineContext hooks)
        (andThen (initializeTargetOrg hooks)
        (andThen (initializePreBuildStepGroups hooks)
        (andThen (initializePostBuildStepGroups hooks)
        (andThen (initializeSkipActions hooks)
        (andThen (initializeSkipGroups hooks)
        (andThen (initializeActionMap hooks)
        (andThen initializeEngineResultDetail
        (andThen validateEngine
                 compileAllTasks)))))))))
          (e\<lparr> recipe := Some rcp,
              engineContext := (engineContext e)\<lparr> compileOptions := opts \<rparr> \<rparr>))"

section \<open>Running the compiled plan\<close>

text \<open>
  \<^verbatim>\<open>executeStep\<close>.  The action context handed to the action is the engine context
  (the Listr handles that the source adds to it are left out).  The message of the
  unknown-action error reads \<^verbatim>\<open>this.recipe.recipeType\<close>, a \<^verbatim>\<open>TypeError\<close> when the
  engine has no recipe.
\<close>

definition executeStep ::
  "'w AppxRecipeEngine \<Rightarrow> AppxEngineStep \<Rightarrow> 'w \<Rightarrow> settled \<times> 'w" where
  "executeStep e recipeStep w =
     (let actionContext = engineContext e in
      case actionExecutorMap e of
        None \<Rightarrow> (Rejected (ThrownError TypeError), w)
      | Some m \<Rightarrow>
          (case map_of m (action recipeStep) of
             None \<Rightarrow>
               (case recipe e of
                  None \<Rightarrow> (Rejected (ThrownError TypeError), w)
                | Some r \<Rightarrow>
                    (Rejected (ThrownError
                       (ERROR_UNKNOWN_ACTION (action recipeStep) (recipeType r))), w))
           | Some actionExecutor \<Rightarrow>
               actionExecutor actionContext (AppxEngineStep.options recipeStep) w))"

text \<open>How the observable of a sub task ends: \<^verbatim>\<open>observer.complete()\<close> or
  \<^verbatim>\<open>observer.error(x)\<close>.\<close>

datatype observed = Completed | Errored thrown

text \<open>The \<^verbatim>\<open>.catch\<close> handler of a sub task.\<close>

definition stepRejected ::
  "thrown \<Rightarrow> 'w AppxRecipeEngine \<Rightarrow> observed \<times> 'w AppxRecipeEngine" where
  "stepRejected v e =
     (let falconActionResult = wrapRejectedPromise v ''ActionResult (REJECTED)'' ACTION in
      case addChild falconActionResult (falconEngineResult e) of
        (None, r) \<Rightarrow> (Completed, e\<lparr> falconEngineResult := r \<rparr>)
      | (Some falconEngineError, r) \<Rightarrow>
          (Errored falconEngineError, e\<lparr> falconEngineResult := r \<rparr>))"

text \<open>The task of a sub task: \<^verbatim>\<open>executeStep(...).then(...).catch(...)\<close>.  What the
  \<^verbatim>\<open>.then\<close> handler throws is caught by the \<^verbatim>\<open>.catch\<close> handler after it.\<close>

definition runSubTask ::
  "sub_task \<Rightarrow> 'w AppxRecipeEngine \<Rightarrow> 'w \<Rightarrow> observed \<times> 'w AppxRecipeEngine \<times> 'w" where
  "runSubTask t e w =
     (case executeStep e (task_step t) w of
        (Resolved falconActionResult, w') \<Rightarrow>
          (case addChild falconActionResult (falconEngineResult e) of
             (None, r) \<Rightarrow> (Completed, e\<lparr> falconEngineResult := r \<rparr>, w')
           | (Some x, r) \<Rightarrow>
               (let (ob, e') = stepRejected x (e\<lparr> falconEngineResult := r \<rparr>)
                in (ob, e', w')))
      | (Rejected v, w') \<Rightarrow> (let (ob, e') = stepRejected v e in (ob, e', w')))"

text \<open>
  Modelled from the spec: the Listr task runner is an external library; its run is
  fully sequential (groups in order, the steps of a group in order), and once a task
  fails the remaining plan is abandoned and the run rejects with what the task failed
  with.
\<close>

fun runSubTasks ::
  "sub_task list \<Rightarrow> 'w AppxRecipeEngine \<Rightarrow> 'w \<Rightarrow> listr_settled \<times> 'w AppxRecipeEngine \<times> 'w" where
  "runSubTasks [] e w = (ListrResolved JUndefined, e, w)"
| "runSubTasks (t # ts) e w =
     (case runSubTask t e w of
        (Completed, e', w') \<Rightarrow> runSubTasks ts e' w'
      | (Errored x, e', w') \<Rightarrow> (ListrRejected x, e', w'))"

fun runParentTasks ::
  "parent_task list \<Rightarrow> 'w AppxRecipeEngine \<Rightarrow> 'w \<Rightarrow> listr_settled \<times> 'w AppxRecipeEngine \<times> 'w" where
  "runParentTasks [] e w = (ListrResolved JUndefined, e, w)"
| "runParentTasks (t # ts) e w =
     (case skipActions (engineContext e) of
        None \<Rightarrow> (ListrRejected (ThrownError TypeError), e, w)
      | Some sa \<Rightarrow>
          (case runParentTask sa t of
             Inl err \<Rightarrow> (ListrRejected (ThrownError err), e, w)
           | Inr subs \<Rightarrow>
               (case runSubTasks subs e w of
                  (ListrResolved c, e', w') \<Rightarrow> runParentTasks ts e' w'
                | (ListrRejected x, e', w') \<Rightarrow> (ListrRejected x, e', w'))))"

definition listrRun ::
  "json \<Rightarrow> 'w AppxRecipeEngine \<Rightarrow> 'w \<Rightarrow> listr_settled \<times> 'w AppxRecipeEngine \<times> 'w" where
  "listrRun executionOptions e w =
     (case listrTasks e of
        None \<Rightarrow> (ListrRejected (ThrownError TypeError), e, w)
      | Some ts \<Rightarrow> runParentTasks ts e w)"

text \<open>\<^verbatim>\<open>startExecution\<close> and \<^verbatim>\<open>endExecution\<close> are empty in the source.\<close>

definition startExecution :: "'w AppxRecipeEngine \<Rightarrow> 'w AppxRecipeEngine" where
  "startExecution e = e"

definition endExecution :: "'w AppxRecipeEngine \<Rightarrow> 'w AppxRecipeEngine" where
  "endExecution e = e"

text \<open>The engine's \<^verbatim>\<open>onSuccess\<close>: the branch on FAILURE is empty in the source.\<close>

definition engine_onSuccess :: "json \<Rightarrow> 'w AppxRecipeEngine may_throw" where
  "engine_onSuccess listrContext e =
     (case result_success None (falconEngineResult e) of
        Inl err \<Rightarrow> (Some (ThrownError err), e)
      | Inr r \<Rightarrow> (None, e\<lparr> falconEngineResult := r \<rparr>))"

text \<open>The engine's \<^verbatim>\<open>onError\<close> always throws.\<close>

definition engine_onError ::
  "thrown \<Rightarrow> 'w AppxRecipeEngine \<Rightarrow> thrown \<times> 'w AppxRecipeEngine" where
  "engine_onError listrError e =
     (if \<not> validate listrError ENGINE ERROR then
        (let falconError = ERROR_UNEXPECTED_LISTR_RESULT (name (falconEngineResult e));
             (x, r) = result_throw falconError (falconEngineResult e)
         in (x, e\<lparr> falconEngineResult := r \<rparr>))
      else (ThrownResult (falconEngineResult e), e))"

datatype 'a outcome = Returned 'a | Threw thrown

definition engine_execute ::
  "'w engine_hooks \<Rightarrow> json \<Rightarrow> 'w AppxRecipeEngine \<Rightarrow> 'w
     \<Rightarrow> result outcome \<times> 'w AppxRecipeEngine \<times> 'w" where
  "engine_execute hooks executionOptions e w =
     (if listrTasks e = None
        then (Threw (ThrownError ERROR_RECIPE_NOT_COMPILED), e, w)
      else
        (case executeEngine hooks executionOptions (startExecution e) w of
           (ListrResolved listrContext, e1, w1) \<Rightarrow>
             (case engine_onSuccess listrContext e1 of
                (None, e2) \<Rightarrow>
                  (Returned (falconEngineResult (endExecution e2)), endExecution e2, w1)
              | (Some x, e2) \<Rightarrow>
                  (let (y, e3) = engine_onError x e2 in (Threw y, e3, w1)))
         | (ListrRejected listrError, e1, w1) \<Rightarrow>
             (let (y, e2) = engine_onError listrError e1 in (Threw y, e2, w1))))"

section \<open>The recipe\<close>

text \<open>
  \<^verbatim>\<open>SfdxFalconRecipe\<close>: the members read from the file, and the members that are not.
  \<open>compiled\<close> is not set by \<^verbatim>\<open>read()\<close>, so it is undefined (\<open>None\<close>) until
  \<^verbatim>\<open>compile()\<close> sets it.
\<close>

record 'w SfdxFalconRecipe = recipe_members +
  compiled :: "bool option"
  recipeEngine :: "'w AppxRecipeEngine option"
  falconRecipeResult :: result

text \<open>The values of the \<^verbatim>\<open>RecipeType\<close> enum are declared in a file that is not among
  the sources; they are parameters.\<close>

record RecipeType =
  RecipeType_APPX_DEMO :: json
  RecipeType_APPX_PACKAGE :: json

text \<open>\<^verbatim>\<open>validateTopLevelProperties\<close>.  A property that the recipe object does not
  have reads as undefined.\<close>

fun getProp :: "json \<Rightarrow> string \<Rightarrow> json" where
  "getProp (JObj kvs) k = (case map_of kvs k of None \<Rightarrow> JUndefined | Some v \<Rightarrow> v)"
| "getProp v k = JUndefined"

definition topLevelKeys :: "string list" where
  "topLevelKeys = [''recipeName'', ''description'', ''recipeType'', ''recipeVersion'',
                   ''schemaVersion'', ''options'', ''recipeStepGroups'', ''handlers'']"

fun pushInvalid :: "json \<Rightarrow> string list \<Rightarrow> string list" where
  "pushInvalid sfdxFalconRecipe [] = []"
| "pushInvalid sfdxFalconRecipe (k # ks) =
     (if falsy (getProp sfdxFalconRecipe k) then k # pushInvalid sfdxFalconRecipe ks
      else pushInvalid sfdxFalconRecipe ks)"

definition validateTopLevelProperties :: "json \<Rightarrow> error option" where
  "validateTopLevelProperties sfdxFalconRecipe =
     (let invalidConfigKeys = pushInvalid sfdxFalconRecipe topLevelKeys in
      if length invalidConfigKeys > 0
        then Some (ERROR_INVALID_RECIPE (MissingSettings invalidConfigKeys))
      else None)"

text \<open>\<^verbatim>\<open>validate\<close>: the top-level keys, then the engine of the recipe's type.
  \<^verbatim>\<open>AppxDemoConfigEngine.validateRecipe\<close> is not among the sources; it is the
  parameter \<open>engineValidateRecipe\<close>.\<close>

definition recipe_validate :: "RecipeType \<Rightarrow> (json \<Rightarrow> error option) \<Rightarrow> json \<Rightarrow> error option" where
  "recipe_validate rt engineValidateRecipe sfdxFalconRecipeJson =
     (case validateTopLevelProperties sfdxFalconRecipeJson of
        Some err \<Rightarrow> Some err
      | None \<Rightarrow>
          (if getProp sfdxFalconRecipeJson ''recipeType'' = RecipeType_APPX_DEMO rt
             then engineValidateRecipe sfdxFalconRecipeJson
           else if getProp sfdxFalconRecipeJson ''recipeType'' = RecipeType_APPX_PACKAGE rt
             then None
           else Some (ERROR_INVALID_RECIPE
                        (InvalidRecipeType (getProp sfdxFalconRecipeJson ''recipeType'')))))"

text \<open>The TypeScript casts of \<^verbatim>\<open>read()\<close>: the step groups of the file, which the
  engine has validated, as \<^verbatim>\<open>Array<AppxEngineStepGroup>\<close>.\<close>

fun asString :: "json \<Rightarrow> string" where
  "asString (JStr s) = s"
| "asString v = []"

fun asOptionalString :: "json \<Rightarrow> string option" where
  "asOptionalString (JStr s) = Some s"
| "asOptionalString v = None"

fun asArray :: "json \<Rightarrow> json list" where
  "asArray (JArr xs) = xs"
| "asArray v = []"

definition asStep :: "json \<Rightarrow> AppxEngineStep" where
  "asStep j =
     \<lparr> stepName = asString (getProp j ''stepName''),
       description = asString (getProp j ''description''),
       action = asString (getProp j ''action''),
       options = getProp j ''options'',
       onSuccess = asOptionalString (getProp j ''onSuccess''),
       onError = asOptionalString (getProp j ''onError'') \<rparr>"

definition asStepGroup :: "json \<Rightarrow> AppxEngineStepGroup" where
  "asStepGroup j =
     \<lparr> stepGroupName = asString (getProp j ''stepGroupName''),
       alias = asString (getProp j ''alias''),
       description = asString (getProp j ''description''),
       recipeSteps = map asStep (asArray (getProp j ''recipeSteps'')) \<rparr>"

text \<open>
  \<^verbatim>\<open>read\<close>.  Reading the file is the work of an external library: \<open>recipeFile\<close> is
  the parsed object, or \<open>None\<close> when the file does not exist.  The detail object of the
  RECIPE result, which nothing here reads, and the project context are left out.
\<close>

definition read ::
  "RecipeType \<Rightarrow> (json \<Rightarrow> error option) \<Rightarrow> json option \<Rightarrow> error + 'w SfdxFalconRecipe" where
  "read rt engineValidateRecipe recipeFile =
     (case recipeFile of
        None \<Rightarrow> Inl ERROR_CONFIG_NOT_FOUND
      | Some rcp \<Rightarrow>
          (case recipe_validate rt engineValidateRecipe rcp of
             Some err \<Rightarrow> Inl err
           | None \<Rightarrow>
               Inr \<lparr> recipeName = getProp rcp ''recipeName'',
                     recipeDescription = getProp rcp ''description'',
                     recipeType = getProp rcp ''recipeType'',
                     recipeVersion = getProp rcp ''recipeVersion'',
                     schemaVersion = getProp rcp ''schemaVersion'',
                     recipeOptions = getProp rcp ''options'',
                     recipeStepGroups = map asStepGroup (asArray (getProp rcp ''recipeStepGroups'')),
                     handlers = getProp rcp ''handlers'',
                     validated = Some True,
                     compiled = None,
                     recipeEngine = None,
                     falconRecipeResult =
                       newResult (asString (getProp rcp ''recipeName'')) RECIPE False True True \<rparr>))"

text \<open>\<^verbatim>\<open>SfdxFalconRecipe.compile\<close>.  \<^verbatim>\<open>AppxDemoConfigEngine.compileRecipe\<close> is not
  among the sources; it is the parameter \<open>compileRecipe\<close>, which gives the compiled
  engine or throws.\<close>

definition recipe_compile ::
  "RecipeType \<Rightarrow> (recipe_members \<Rightarrow> json \<Rightarrow> thrown + 'w AppxRecipeEngine) \<Rightarrow> json
     \<Rightarrow> 'w SfdxFalconRecipe may_throw" where
  "recipe_compile rt compileRecipe compileOpts r =
     (if recipeType r = RecipeType_APPX_DEMO rt then
        (case compileRecipe (recipe_members.truncate r) compileOpts of
           Inl x \<Rightarrow> (Some x, r)
         | Inr eng \<Rightarrow> (None, r\<lparr> recipeEngine := Some eng, compiled := Some True \<rparr>))
      else if recipeType r = RecipeType_APPX_PACKAGE rt then
        (None, r\<lparr> compiled := Some True \<rparr>)
      else throwError (ERROR_INVALID_RECIPE (InvalidRecipeType (recipeType r))) r)"

definition recipe_onSuccess :: "result \<Rightarrow> 'w SfdxFalconRecipe may_throw" where
  "recipe_onSuccess falconEngineRes r =
     (case addChild falconEngineRes (falconRecipeResult r) of
        (Some x, res) \<Rightarrow> (Some x, r\<lparr> falconRecipeResult := res \<rparr>)
      | (None, res) \<Rightarrow>
          (case result_success None res of
             Inl err \<Rightarrow> (Some (ThrownError err), r\<lparr> falconRecipeResult := res \<rparr>)
           | Inr res' \<Rightarrow> (None, r\<lparr> falconRecipeResult := res' \<rparr>)))"

text \<open>The recipe's \<^verbatim>\<open>onError\<close> always throws.\<close>

definition recipe_onError ::
  "thrown \<Rightarrow> 'w SfdxFalconRecipe \<Rightarrow> thrown \<times> 'w SfdxFalconRecipe" where
  "recipe_onError engineError r =
     (let falconEngineRes = wrapRejectedPromise engineError ''EngineResult (REJECTED)'' ENGINE in
      case addChild falconEngineRes (falconRecipeResult r) of
        (Some x, res) \<Rightarrow> (x, r\<lparr> falconRecipeResult := res \<rparr>)
      | (None, res) \<Rightarrow> (ThrownResult res, r\<lparr> falconRecipeResult := res \<rparr>))"

text \<open>\<^verbatim>\<open>SfdxFalconRecipe.execute\<close>.  A recipe that is marked compiled and has no
  engine fails with a \<^verbatim>\<open>TypeError\<close> on \<^verbatim>\<open>this._recipeEngine.execute\<close>.\<close>

definition recipe_execute ::
  "'w engine_hooks \<Rightarrow> json \<Rightarrow> 'w SfdxFalconRecipe \<Rightarrow> 'w
     \<Rightarrow> result outcome \<times> 'w SfdxFalconRecipe \<times> 'w" where
  "recipe_execute hooks executionOptions r w =
     (if compiled r \<noteq> Some True
        then (Threw (ThrownError ERROR_RECIPE_NOT_COMPILED), r, w)
      else
        (case recipeEngine r of
           None \<Rightarrow> (Threw (ThrownError TypeError), r, w)
         | Some eng \<Rightarrow>
             (case engine_execute hooks executionOptions eng w of
                (Returned engineSuccessResponse, eng', w') \<Rightarrow>
                  (case recipe_onSuccess engineSuccessResponse (r\<lparr> recipeEngine := Some eng' \<rparr>) of
                     (None, r') \<Rightarrow> (Returned (falconRecipeResult r'), r', w')
                   | (Some x, r') \<Rightarrow>
                       (let (y, r'') = recipe_onError x r' in (Threw y, r'', w')))
              | (Threw engineFailureResponse, eng', w') \<Rightarrow>
                  (let (y, r') = recipe_onError engineFailureResponse
                                   (r\<lparr> recipeEngine := Some eng' \<rparr>)
                   in (Threw y, r', w')))))"

section \<open>Recipe validation by the engine\<close>

definition validateTargetOrg :: "TargetOrg \<Rightarrow> error option" where
  "validateTargetOrg org =
     (if notNonEmptyString (orgName org)
        then Some (ERROR_INVALID_RECIPE (TargetOrgKey ''orgName''))
      else if notNonEmptyString (TargetOrg.alias org)
        then Some (ERROR_INVALID_RECIPE (TargetOrgKey ''alias''))
      else if notNonEmptyString (TargetOrg.description org)
        then Some (ERROR_INVALID_RECIPE (TargetOrgKey ''description''))
      else if notBoolean (isScratchOrg org)
        then Some (ERROR_INVALID_RECIPE (TargetOrgKey ''isScratchOrg''))
      else if isScratchOrg org = JBool True \<and> notNonEmptyString (scratchDefJson org)
        then Some (ERROR_INVALID_RECIPE (TargetOrgKey ''scratchDefJson''))
      else if isScratchOrg org = JBool False \<and> notNonEmptyString (orgReqsJson org)
        then Some (ERROR_INVALID_RECIPE (TargetOrgKey ''orgReqsJson''))
      else None)"

text \<open>The loop of \<^verbatim>\<open>validateOuterRecipe\<close> over \<^verbatim>\<open>recipe.options.targetOrgs\<close>: the
  first entry that is not valid throws.\<close>

fun validateTargetOrgs :: "TargetOrg list \<Rightarrow> error option" where
  "validateTargetOrgs [] = None"
| "validateTargetOrgs (org # orgs) =
     (case validateTargetOrg org of
        Some err \<Rightarrow> Some err
      | None \<Rightarrow> validateTargetOrgs orgs)"

section \<open>The command layer\<close>

record SfdxFalconCommand =
  falconCommandName :: string
  falconCommandResult :: result
  falconCommandResultDetail :: SfdxFalconCommandResultDetail
  falconStatus :: int
  falconResult :: string
  outputDirectory :: string
  projectDirectory :: string
  targetDirectory :: string
  recipeFile :: string
  configFile :: string
  extendedOptions :: json
  gitRemoteUri :: string
  gitCloneDirectory :: string
  falconDebugFlag :: "string list"
  falconDebugErrorFlag :: bool
  falconDebugSuccessFlag :: bool
  falconDebugDepthFlag :: int

text \<open>What the command layer calls outside the program: \<^verbatim>\<open>path.resolve\<close>,
  \<^verbatim>\<open>JSON.parse\<close> (\<open>None\<close> when it throws) and \<^verbatim>\<open>validateLocalPath\<close>.\<close>

record command_env =
  pathResolve :: "string \<Rightarrow> string"
  jsonParse :: "string \<Rightarrow> json option"
  validateLocalPath :: "string \<Rightarrow> bool"

text \<open>\<^verbatim>\<open>flag || dflt\<close>: an empty string is falsy.\<close>

fun stringOr :: "string option \<Rightarrow> string \<Rightarrow> string" where
  "stringOr None dflt = dflt"
| "stringOr (Some s) dflt = (if s = [] then dflt else s)"

fun boolOr :: "bool option \<Rightarrow> bool \<Rightarrow> bool" where
  "boolOr None dflt = dflt"
| "boolOr (Some b) dflt = (if b then b else dflt)"

fun intOr :: "int option \<Rightarrow> int \<Rightarrow> int" where
  "intOr None dflt = dflt"
| "intOr (Some n) dflt = (if n = 0 then dflt else n)"

text \<open>\<^verbatim>\<open>s.split(',')\<close> and \<^verbatim>\<open>s.trim()\<close> on ASCII strings.\<close>

fun splitComma :: "string \<Rightarrow> string list" where
  "splitComma [] = [] # []"
| "splitComma (c # cs) =
     (if c = CHR '','' then [] # splitComma cs
      else (case splitComma cs of
              [] \<Rightarrow> [c] # []
            | x # xs \<Rightarrow> (c # x) # xs))"

definition isWhite :: "char \<Rightarrow> bool" where
  "isWhite c = (c \<in> {CHR '' '', CHR 0x09, CHR 0x0A, CHR 0x0B, CHR 0x0C, CHR 0x0D})"

definition trim :: "string \<Rightarrow> string" where
  "trim s = rev (dropWhile isWhite (rev (dropWhile isWhite s)))"

text \<open>
  \<^verbatim>\<open>sfdxFalconCommandInit\<close>.  \<^verbatim>\<open>JSON.parse\<close> throws before anything of the command
  is set up that the claims look at (\<open>Inl\<close>); a directory that is not valid throws
  after the COMMAND result and its detail have been created (\<open>Inr\<close> with the error).
  Enabling the debuggers changes nothing that is modelled.
\<close>

definition sfdxFalconCommandInit ::
  "command_env \<Rightarrow> command_flags \<Rightarrow> command_args \<Rightarrow> string option \<Rightarrow> SfdxFalconCommandType
     \<Rightarrow> error + (error option \<times> SfdxFalconCommand)" where
  "sfdxFalconCommandInit env flags args commandNameArg cmdType =
     (let cmdName = (case commandNameArg of None \<Rightarrow> ''UNSPECIFIED_FALCON_COMMAND'' | Some n \<Rightarrow> n) in
      case jsonParse env (stringOr (flag_extendedOptions flags) ''{}'') of
        None \<Rightarrow> Inl SyntaxError
      | Some ext \<Rightarrow>
          (let debugErr = boolOr (falcondebugerror flags) False;
               debugOk = boolOr (falcondebugsuccess flags) False;
               debugFlag = (if stringOr (falcondebug flags) [] \<noteq> []
                            then splitComma (stringOr (falcondebug flags) [])
                            else []);
               debuggers = map trim debugFlag
                             @ (if debugErr then [''FALCON_ERROR''] else [])
                             @ (if debugOk then [''FALCON_SUCCESS''] else []);
               c = \<lparr> falconCommandName = cmdName,
                     falconCommandResult = newResult cmdName COMMAND True False False,
                     falconCommandResultDetail =
                       \<lparr> commandName = cmdName, commandType = cmdType,
                         commandFlags = flags, commandArgs = args,
                         commandExitCode = 0, enabledDebuggers = debuggers \<rparr>,
                     falconStatus = 0,
                     falconResult = ''RESPONSE_NOT_SPECIFIED'',
                     outputDirectory = pathResolve env (stringOr (outputdir flags) ''.''),
                     projectDirectory = pathResolve env (stringOr (projectdir flags) ''.''),
                     targetDirectory = pathResolve env (stringOr (targetdir flags) ''.''),
                     recipeFile = pathResolve env (stringOr (recipefile flags) ''.''),
                     configFile = pathResolve env (stringOr (configfile flags) ''.''),
                     extendedOptions = ext,
                     gitRemoteUri = stringOr (GIT_REMOTE_URI args) [],
                     gitCloneDirectory = stringOr (GIT_CLONE_DIR args) [],
                     falconDebugFlag = debugFlag,
                     falconDebugErrorFlag = debugErr,
                     falconDebugSuccessFlag = debugOk,
                     falconDebugDepthFlag = intOr (falcondebugdepth flags) 2 \<rparr>
           in if validateLocalPath env (outputDirectory c) = False
                then Inr (Some (errInvalidDirectory ''Output ''), c)
              else if validateLocalPath env (projectDirectory c) = False
                then Inr (Some (errInvalidDirectory ''Project ''), c)
              else if validateLocalPath env (targetDirectory c) = False
                then Inr (Some (errInvalidDirectory ''Target ''), c)
              else Inr (None, c)))"

text \<open>
  The command's \<^verbatim>\<open>onError\<close> ends either in \<^verbatim>\<open>SfdxFalconError.terminateWithError\<close>
  (not among the sources; the model records its three arguments) or in an exception of
  one of the calls before it.  Rendering the result changes nothing.
\<close>

datatype command_exit =
    TerminateWithError result string bool
  | CommandThrew thrown

definition command_onError ::
  "thrown \<Rightarrow> SfdxFalconCommand \<Rightarrow> command_exit \<times> SfdxFalconCommand" where
  "command_onError rejected c =
     (let rejectedResult = wrapRejectedPromise rejected ''Promise Returned (REJECTED)'' UNKNOWN;
          d = (falconCommandResultDetail c)\<lparr> commandExitCode := 1 \<rparr>;
          c1 = c\<lparr> falconCommandResultDetail := d,
                  falconCommandResult := setDetail (CommandDetail d) (falconCommandResult c) \<rparr>
      in case addChild rejectedResult (falconCommandResult c1) of
           (Some x, res) \<Rightarrow> (CommandThrew x, c1\<lparr> falconCommandResult := res \<rparr>)
         | (None, res) \<Rightarrow>
             (case result_error (errObj rejectedResult) res of
                Inl err \<Rightarrow> (CommandThrew (ThrownError err), c1\<lparr> falconCommandResult := res \<rparr>)
              | Inr res' \<Rightarrow>
                  (TerminateWithError rejectedResult (falconCommandName c1)
                     (falconDebugErrorFlag c1),
                   c1\<lparr> falconCommandResult := res' \<rparr>)))"

definition command_onSuccess :: "result \<Rightarrow> SfdxFalconCommand may_throw" where
  "command_onSuccess sfdxFalconResult c =
     (case addChild sfdxFalconResult (falconCommandResult c) of
        (Some x, res) \<Rightarrow> (Some x, c\<lparr> falconCommandResult := res \<rparr>)
      | (None, res) \<Rightarrow>
          (case result_success (Some (CommandDetail (falconCommandResultDetail c))) res of
             Inl err \<Rightarrow> (Some (ThrownError err), c\<lparr> falconCommandResult := res \<rparr>)
           | Inr res' \<Rightarrow> (None, c\<lparr> falconCommandResult := res' \<rparr>)))"

text \<open>In the words of the specification: a field that is a non-empty string.\<close>

fun nonEmptyString :: "json \<Rightarrow> bool" where
  "nonEmptyString (JStr s) = (s \<noteq> [])"
| "nonEmptyString v = False"

section \<open>A small engine and recipe to run the definitions on\<close>

definition demoStep :: "string \<Rightarrow> string \<Rightarrow> AppxEngineStep" where
  "demoStep n a =
     \<lparr> stepName = n, description = ''a step'', action = a, options = JObj [],
       onSuccess = None, onError = None \<rparr>"

definition demoGroup :: "string \<Rightarrow> string \<Rightarrow> AppxEngineStep list \<Rightarrow> AppxEngineStepGroup" where
  "demoGroup n a steps =
     \<lparr> stepGroupName = n, alias = a, description = ''a group'', recipeSteps = steps \<rparr>"

definition demoOrg :: TargetOrg where
  "demoOrg =
     \<lparr> orgName = JStr ''demo'', alias = JStr ''demo-org'', description = JStr ''a scratch org'',
       isScratchOrg = JBool True, scratchDefJson = JStr ''demo-scratch-def.json'',
       orgReqsJson = JUndefined \<rparr>"

definition demoRecipe :: "AppxEngineStepGroup list \<Rightarrow> recipe_members" where
  "demoRecipe groups =
     \<lparr> recipeName = JStr ''demo'', recipeDescription = JStr ''a recipe'',
       recipeType = JStr ''appx:demo-recipe'', recipeVersion = JStr ''1.0.0'',
       schemaVersion = JStr ''1.0.0'', recipeOptions = JObj [],
       recipeStepGroups = groups, handlers = JArr [], validated = Some True \<rparr>"

text \<open>An action that resolves with a successful ACTION result, and one that rejects with
  an ACTION result in FAILURE status.\<close>

definition succeedingAction :: "unit AppxEngineAction" where
  "succeedingAction ctx opts w =
     (Resolved (SfdxFalconResult ''deploy-metadata'' ACTION SUCCESS None [] True True None), w)"

definition failingAction :: "unit AppxEngineAction" where
  "failingAction ctx opts w =
     (Rejected (ThrownResult
        (SfdxFalconResult ''deploy-metadata'' ACTION FAILURE None [] True True None)), w)"

text \<open>A concrete engine: its hooks fill the context with fixed values, register one
  action and run the compiled plan with Listr.\<close>

definition demoHooks :: "string list \<Rightarrow> string list \<Rightarrow> unit AppxEngineAction \<Rightarrow> unit engine_hooks" where
  "demoHooks sg sa act =
     \<lparr> initializeRecipeEngineContext =
         (\<lambda>e. (None, e\<lparr> engineContext := (engineContext e)
                          \<lparr> executing := Some False, initialized := Some False,
                            haltOnError := Some True \<rparr> \<rparr>)),
       initializeTargetOrg =
         (\<lambda>e. (None, e\<lparr> engineContext := (engineContext e)\<lparr> targetOrg := Some demoOrg \<rparr> \<rparr>)),
       initializePreBuildStepGroups = (\<lambda>e. (None, e\<lparr> preBuildStepGroups := Some [] \<rparr>)),
       initializePostBuildStepGroups = (\<lambda>e. (None, e\<lparr> postBuildStepGroups := Some [] \<rparr>)),
       initializeSkipActions =
         (\<lambda>e. (None, e\<lparr> engineContext := (engineContext e)\<lparr> skipActions := Some sa \<rparr> \<rparr>)),
       initializeSkipGroups =
         (\<lambda>e. (None, e\<lparr> engineContext := (engineContext e)\<lparr> skipGroups := Some sg \<rparr> \<rparr>)),
       initializeActionMap =
         (\<lambda>e. (None, e\<lparr> actionExecutorMap := Some [(''deploy-metadata'', act)] \<rparr>)),
       executeEngine = listrRun \<rparr>"

definition demoEngine :: "unit AppxRecipeEngine" where
  "demoEngine = newEngine ''AppxDemoConfigEngine'' ''demo''"

text \<open>The example of the specification: groups A and B with one step each.\<close>

definition groupA :: AppxEngineStepGroup where
  "groupA = demoGroup ''Group A'' ''A'' [demoStep ''s1'' ''deploy-metadata'']"

definition groupB :: AppxEngineStepGroup where
  "groupB = demoGroup ''Group B'' ''B'' [demoStep ''s2'' ''deploy-metadata'']"

definition emptyGroup :: AppxEngineStepGroup where
  "emptyGroup = demoGroup ''Group E'' ''E'' []"

text \<open>The engine after a successful \<^verbatim>\<open>compile\<close> of that recipe with \<open>skipGroups = ["B"]\<close>.\<close>

definition compiledDemo :: "unit AppxRecipeEngine" where
  "compiledDemo =
     snd (compile (demoHooks [''B''] [] succeedingAction) (demoRecipe [groupA, groupB]) JNull
            demoEngine)"

text \<open>An initialized engine holding that recipe, before its tasks are compiled.\<close>

definition readyDemo :: "unit AppxRecipeEngine" where
  "readyDemo =
     demoEngine\<lparr> recipe := Some (demoRecipe [groupA, groupB]),
                 engineContext := emptyContext\<lparr> initialized := Some True,
                                                skipGroups := Some [''B''],
                                                skipActions := Some [] \<rparr> \<rparr>"

text \<open>An engine whose context is complete and whose action registry was never
  assigned.\<close>

definition noRegistryEngine :: "unit AppxRecipeEngine" where
  "noRegistryEngine =
     demoEngine\<lparr> engineContext := emptyContext\<lparr> targetOrg := Some demoOrg,
                                                skipActions := Some [],
                                                skipGroups := Some [] \<rparr> \<rparr>"

text \<open>Hooks like \<open>demoHooks\<close>, with a registry that holds no action.\<close>

definition emptyRegistryHooks :: "unit engine_hooks" where
  "emptyRegistryHooks =
     (demoHooks [] [] succeedingAction)
       \<lparr> initializeActionMap := (\<lambda>e. (None, e\<lparr> actionExecutorMap := Some [] \<rparr>)) \<rparr>"

text \<open>A recipe file without \<open>options\<close> and \<open>handlers\<close>, and the values of the recipe
  types.\<close>

definition recipeWithoutOptionsAndHandlers :: json where
  "recipeWithoutOptionsAndHandlers =
     JObj [(''recipeName'', JStr ''demo''), (''description'', JStr ''a recipe''),
           (''recipeType'', JStr ''appx:demo-recipe''), (''recipeVersion'', JStr ''1.0.0''),
           (''schemaVersion'', JStr ''1.0.0''), (''recipeStepGroups'', JArr [])]"

definition demoRecipeTypes :: RecipeType where
  "demoRecipeTypes =
     \<lparr> RecipeType_APPX_DEMO = JStr ''appx:demo-recipe'',
       RecipeType_APPX_PACKAGE = JStr ''appx:package-recipe'' \<rparr>"

text \<open>A complete recipe file, and the recipe that \<^verbatim>\<open>read\<close> makes of it.\<close>

definition demoRecipeFile :: json where
  "demoRecipeFile =
     JObj [(''recipeName'', JStr ''demo''), (''description'', JStr ''a recipe''),
           (''recipeType'', JStr ''appx:demo-recipe''), (''recipeVersion'', JStr ''1.0.0''),
           (''schemaVersion'', JStr ''1.0.0''), (''options'', JObj []),
           (''recipeStepGroups'', JArr []), (''handlers'', JArr [])]"

definition readDemoRecipe :: "unit SfdxFalconRecipe" where
  "readDemoRecipe =
     (case read demoRecipeTypes (\<lambda>r. None) (Some demoRecipeFile) of
        Inr r \<Rightarrow> r
      | Inl err \<Rightarrow> undefined)"



definition failingDemo :: "unit AppxRecipeEngine" where
  "failingDemo =
     snd (compile (demoHooks [] [] failingAction) (demoRecipe [groupA]) JNull demoEngine)"

text \<open>A command environment that accepts every path, and the flags of a command given
  no flag at all.\<close>

definition demoEnv :: command_env where
  "demoEnv =
     \<lparr> pathResolve = (\<lambda>p. ''/home/demo/'' @ p),
       jsonParse = (\<lambda>s. if s = ''{}'' then Some (JObj []) else None),
       validateLocalPath = (\<lambda>p. True) \<rparr>"

definition noFlags :: command_flags where
  "noFlags =
     \<lparr> outputdir = None, projectdir = None, targetdir = None, recipefile = None,
       configfile = None, flag_extendedOptions = None, falcondebug = None,
       falcondebugerror = None, falcondebugsuccess = None, falcondebugdepth = None \<rparr>"

definition noArgs :: command_args where
  "noArgs = \<lparr> GIT_REMOTE_URI = None, GIT_CLONE_DIR = None \<rparr>"

text \<open>The command \<^verbatim>\<open>falcon:project:clone\<close> right after its initialization.\<close>

definition demoCommand :: SfdxFalconCommand where
  "demoCommand =
     (case sfdxFalconCommandInit demoEnv noFlags noArgs (Some ''falcon:demo:clone'') APPX_PACKAGE of
        Inr (x, c) \<Rightarrow> c
      | Inl err \<Rightarrow> undefined)"

text \<open>An engine whose context is complete and whose action registry holds no action,
  and a compiled recipe whose engine is the one with the action that rejects.\<close>

definition emptyRegistryEngine :: "unit AppxRecipeEngine" where
  "emptyRegistryEngine = noRegistryEngine\<lparr> actionExecutorMap := Some [] \<rparr>"


section \<open>Properties of the task compiler\<close>

lemma anyActiveStep_iff:
  "anyActiveStep sa steps = (\<exists>s \<in> set steps. action s \<notin> set sa)"
  by (induction steps) (auto simp: skipAction_def)

lemma stepGroupHasActiveTasks_iff:
  "stepGroupHasActiveTasks sa g = (\<exists>s \<in> set (recipeSteps g). action s \<notin> set sa)"
  by (cases "recipeSteps g") (auto simp: stepGroupHasActiveTasks_def anyActiveStep_iff)

lemma compileParentTasks_filter:
  "map task_group (compileParentTasks sg sa gs) =
     filter (\<lambda>g. AppxEngineStepGroup.alias g \<notin> set sg \<and>
                 (\<exists>s \<in> set (recipeSteps g). action s \<notin> set sa)) gs"
  by (induction gs) (auto simp: skipGroup_def stepGroupHasActiveTasks_iff)

lemma addSubTasks_filter:
  "map task_step (addSubTasks sa steps) = filter (\<lambda>s. action s \<notin> set sa) steps"
  by (induction steps) (auto simp: skipAction_def)

lemma planned_group_has_steps:
  "t \<in> set (compileParentTasks sg sa gs) \<Longrightarrow> recipeSteps (task_group t) \<noteq> []"
proof -
  assume "t \<in> set (compileParentTasks sg sa gs)"
  then have "task_group t \<in> set (map task_group (compileParentTasks sg sa gs))"
    by simp
  then show ?thesis
    unfolding compileParentTasks_filter by auto
qed

lemma compileAllTasks_success:
  assumes "compileAllTasks e = (None, e')"
  shows "\<exists>pre r post sg sa.
           preBuildStepGroups e = Some pre \<and> recipe e = Some r \<and>
           postBuildStepGroups e = Some post \<and>
           skipGroups (engineContext e) = Some sg \<and> skipActions (engineContext e) = Some sa \<and>
           e' = e\<lparr> listrTasks := Some (compileParentTasks sg sa (pre @ recipeStepGroups r @ post)) \<rparr>"
  using assms
  by (auto simp: compileAllTasks_def throwError_def split: if_splits option.splits)

text \<open>
  Claim C1.  In every compiled plan, a step group has a parent task if and only if its
  alias is not in \<open>skipGroups\<close> and at least one of its steps has an action that is not in
  \<open>skipActions\<close> (in the order of pre-build groups, recipe groups, post-build groups);
  and running the parent task of a group that is in the plan gives exactly the steps
  of the group whose action is not in \<open>skipActions\<close>, in order.
\<close>

theorem compiled_plan_follows_skip_rules:
  assumes "compileAllTasks e = (None, e')"
  shows "\<exists>pre r post sg sa plan.
           preBuildStepGroups e = Some pre \<and> recipe e = Some r \<and>
           postBuildStepGroups e = Some post \<and>
           skipGroups (engineContext e) = Some sg \<and> skipActions (engineContext e) = Some sa \<and>
           listrTasks e' = Some plan \<and>
           map task_group plan =
             filter (\<lambda>g. AppxEngineStepGroup.alias g \<notin> set sg \<and>
                         (\<exists>s \<in> set (recipeSteps g). action s \<notin> set sa))
                    (pre @ recipeStepGroups r @ post) \<and>
           (\<forall>t \<in> set plan. \<exists>subs.
              runParentTask sa t = Inr subs \<and>
              map task_step subs =
                filter (\<lambda>s. action s \<notin> set sa) (recipeSteps (task_group t)))"
proof -
  from compileAllTasks_success [OF assms] obtain pre r post sg sa where
    f: "preBuildStepGroups e = Some pre" "recipe e = Some r" "postBuildStepGroups e = Some post"
       "skipGroups (engineContext e) = Some sg" "skipActions (engineContext e) = Some sa"
    and e': "e' = e\<lparr> listrTasks := Some (compileParentTasks sg sa (pre @ recipeStepGroups r @ post)) \<rparr>"
    by blast
  let ?plan = "compileParentTasks sg sa (pre @ recipeStepGroups r @ post)"
  have subs: "\<forall>t \<in> set ?plan. \<exists>subs.
              runParentTask sa t = Inr subs \<and>
              map task_step subs =
                filter (\<lambda>s. action s \<notin> set sa) (recipeSteps (task_group t))"
  proof
    fix t assume "t \<in> set ?plan"
    then have "recipeSteps (task_group t) \<noteq> []" by (rule planned_group_has_steps)
    then show "\<exists>subs. runParentTask sa t = Inr subs \<and>
              map task_step subs =
                filter (\<lambda>s. action s \<notin> set sa) (recipeSteps (task_group t))"
      by (simp add: runParentTask_def compileSubTasks_def addSubTasks_filter)
  qed
  have "listrTasks e' = Some ?plan" using e' by simp
  with f subs compileParentTasks_filter [of sg sa "pre @ recipeStepGroups r @ post"]
  show ?thesis by blast
qed


lemmas demo_defs = demoHooks_def demoEngine_def newEngine_def emptyContext_def newResult_def
  demoRecipe_def groupA_def groupB_def emptyGroup_def demoGroup_def demoStep_def demoOrg_def
  compile_def andThen_def throwError_def initializeEngineResultDetail_def validateEngine_def
  compileAllTasks_def mapSize_def skipGroup_def skipAction_def stepGroupHasActiveTasks_def
  Let_def

lemma compiledDemo_ok:
  "fst (compile (demoHooks [''B''] [] succeedingAction) (demoRecipe [groupA, groupB]) JNull
          demoEngine) = None"
  by (simp add: demo_defs)

lemma compiledDemo_tasks:
  "listrTasks compiledDemo = Some [\<lparr> title = ''Group A'', task_group = groupA \<rparr>]"
  by (simp add: compiledDemo_def demo_defs)

theorem compiled_plan_follows_skip_rules_witness:
  "compileAllTasks readyDemo =
     (None, readyDemo\<lparr> listrTasks := Some [\<lparr> title = ''Group A'', task_group = groupA \<rparr>] \<rparr>)
   \<and> (\<exists>plan. listrTasks (readyDemo\<lparr> listrTasks := Some [\<lparr> title = ''Group A'', task_group = groupA \<rparr>] \<rparr>) = Some plan
        \<and> map task_group plan = [groupA]
        \<and> (\<forall>t \<in> set plan. \<exists>subs. runParentTask [] t = Inr subs
               \<and> map task_step subs = [demoStep ''s1'' ''deploy-metadata'']))"
proof -
  have h: "compileAllTasks readyDemo =
     (None, readyDemo\<lparr> listrTasks := Some [\<lparr> title = ''Group A'', task_group = groupA \<rparr>] \<rparr>)"
    by (simp add: readyDemo_def demo_defs)
  show ?thesis
    using h compiled_plan_follows_skip_rules [OF h]
    by (simp add: readyDemo_def demo_defs)
qed

text \<open>
  Claim C2, as amended.  A step group whose list of steps is empty is never an error at
  compile time: \<^verbatim>\<open>stepGroupHasActiveTasks\<close> answers false for it, so
  \<^verbatim>\<open>compileParentTasks\<close> leaves it out of the plan, whatever the skip lists hold, and
  \<^verbatim>\<open>compileAllTasks\<close> never fails with \<open>ERROR_NO_STEPS\<close>.  \<^verbatim>\<open>compileSubTasks\<close> does fail
  with \<open>ERROR_NO_STEPS\<close> on a group without steps, but it runs only when Listr executes a
  parent task, and no parent task of a compiled plan holds such a group.
\<close>

theorem empty_steps_group_is_dropped:
  "(recipeSteps g = [] \<longrightarrow>
      g \<notin> set (map task_group (compileParentTasks sg sa gs)) \<and>
      compileSubTasks sa g = Inl (ERROR_NO_STEPS (stepGroupName g)))
   \<and> (\<forall>t \<in> set (compileParentTasks sg sa gs). \<forall>n. runParentTask sa t \<noteq> Inl (ERROR_NO_STEPS n))
   \<and> (\<forall>n. fst (compileAllTasks e) \<noteq> Some (ThrownError (ERROR_NO_STEPS n)))"
proof (intro conjI impI ballI allI)
  assume "recipeSteps g = []"
  then show "g \<notin> set (map task_group (compileParentTasks sg sa gs))"
    unfolding compileParentTasks_filter by simp
next
  assume "recipeSteps g = []"
  then show "compileSubTasks sa g = Inl (ERROR_NO_STEPS (stepGroupName g))"
    by (simp add: compileSubTasks_def)
next
  fix t n assume "t \<in> set (compileParentTasks sg sa gs)"
  then have "recipeSteps (task_group t) \<noteq> []" by (rule planned_group_has_steps)
  then show "runParentTask sa t \<noteq> Inl (ERROR_NO_STEPS n)"
    by (simp add: runParentTask_def compileSubTasks_def)
next
  fix n show "fst (compileAllTasks e) \<noteq> Some (ThrownError (ERROR_NO_STEPS n))"
    by (simp add: compileAllTasks_def throwError_def split: option.splits)
qed

theorem empty_steps_group_is_dropped_witness:
  "recipeSteps emptyGroup = []
   \<and> emptyGroup \<notin> set (map task_group (compileParentTasks [] [] [emptyGroup, groupA]))
   \<and> compileSubTasks [] emptyGroup = Inl (ERROR_NO_STEPS ''Group E'')
   \<and> compileParentTasks [] [] [emptyGroup, groupA] = [\<lparr> title = ''Group A'', task_group = groupA \<rparr>]
   \<and> runParentTask [] \<lparr> title = ''Group A'', task_group = groupA \<rparr>
        = Inr [\<lparr> sub_title = ''s1'', task_step = demoStep ''s1'' ''deploy-metadata'' \<rparr>]"
  using empty_steps_group_is_dropped [of emptyGroup "[]" "[]" "[emptyGroup, groupA]" readyDemo]
  by (simp add: demo_defs runParentTask_def compileSubTasks_def)

text \<open>
  Claim C2 as stated fails: a recipe whose only step group has no steps compiles
  without any error, into an empty plan.
\<close>

theorem empty_steps_group_compiles:
  "emptyGroup \<in> set (recipeStepGroups (demoRecipe [emptyGroup])) \<and> recipeSteps emptyGroup = []
   \<and> fst (compile (demoHooks [] [] succeedingAction) (demoRecipe [emptyGroup]) JNull demoEngine) = None
   \<and> listrTasks (snd (compile (demoHooks [] [] succeedingAction) (demoRecipe [emptyGroup]) JNull
                         demoEngine)) = Some []"
  by (simp add: demo_defs)

section \<open>Properties of engine initialization\<close>

lemma andThen_returns:
  "andThen f g s = (None, t) \<longleftrightarrow> (\<exists>s'. f s = (None, s') \<and> g s' = (None, t))"
  by (cases "f s") (auto simp: andThen_def split: option.splits)

lemma andThen_step: "f s = (None, s') \<Longrightarrow> andThen f g s = g s'"
  by (simp add: andThen_def)

lemma validateEngine_returns:
  "validateEngine e = (None, e') \<Longrightarrow>
     e' = e\<lparr> engineContext := (engineContext e)\<lparr> initialized := Some True \<rparr> \<rparr>"
  by (auto simp: validateEngine_def throwError_def split: if_splits)

lemma validateEngine_throws:
  "fst (validateEngine e) \<noteq> None \<Longrightarrow> snd (validateEngine e) = e"
  by (auto simp: validateEngine_def throwError_def split: if_splits)

lemma compileAllTasks_context:
  "engineContext (snd (compileAllTasks e)) = engineContext e"
  by (auto simp: compileAllTasks_def throwError_def split: option.splits)

text \<open>
  Claim C3.  For a validated recipe, \<^verbatim>\<open>compile\<close> runs the eight initialization steps
  in the fixed order context, target org, pre-build groups, post-build groups,
  skip-actions, skip-groups, action registry, engine result detail, each on the engine as
  the step before left it.  When \<^verbatim>\<open>compile\<close> returns, \<^verbatim>\<open>validateEngine\<close> has passed on
  the engine the eight steps produced, has marked the context \<open>initialized = true\<close>, and
  only then \<^verbatim>\<open>compileAllTasks\<close> has run.  When a check of \<^verbatim>\<open>validateEngine\<close> fails,
  \<^verbatim>\<open>compile\<close> throws that error and leaves the engine exactly as the eight steps
  produced it: \<open>initialized\<close> is not set and no tasks are compiled.
\<close>

theorem compile_initializes_in_order:
  assumes "validated rcp = Some True"
  shows "(fst (compile hooks rcp opts e) = None \<longrightarrow>
           (\<exists>e1 e2 e3 e4 e5 e6 e7 e8 e9.
              initializeRecipeEngineContext hooks
                (e\<lparr> recipe := Some rcp,
                    engineContext := (engineContext e)\<lparr> compileOptions := opts \<rparr> \<rparr>) = (None, e1) \<and>
              initializeTargetOrg hooks e1 = (None, e2) \<and>
              initializePreBuildStepGroups hooks e2 = (None, e3) \<and>
              initializePostBuildStepGroups hooks e3 = (None, e4) \<and>
              initializeSkipActions hooks e4 = (None, e5) \<and>
              initializeSkipGroups hooks e5 = (None, e6) \<and>
              initializeActionMap hooks e6 = (None, e7) \<and>
              initializeEngineResultDetail e7 = (None, e8) \<and>
              validateEngine e8 = (None, e9) \<and>
              initialized (engineContext e9) = Some True \<and>
              compileAllTasks e9 = (None, snd (compile hooks rcp opts e)) \<and>
              initialized (engineContext (snd (compile hooks rcp opts e))) = Some True \<and>
              listrTasks (snd (compile hooks rcp opts e)) \<noteq> None))
       \<and> (\<forall>e1 e2 e3 e4 e5 e6 e7 e8.
              initializeRecipeEngineContext hooks
                (e\<lparr> recipe := Some rcp,
                    engineContext := (engineContext e)\<lparr> compileOptions := opts \<rparr> \<rparr>) = (None, e1) \<and>
              initializeTargetOrg hooks e1 = (None, e2) \<and>
              initializePreBuildStepGroups hooks e2 = (None, e3) \<and>
              initializePostBuildStepGroups hooks e3 = (None, e4) \<and>
              initializeSkipActions hooks e4 = (None, e5) \<and>
              initializeSkipGroups hooks e5 = (None, e6) \<and>
              initializeActionMap hooks e6 = (None, e7) \<and>
              initializeEngineResultDetail e7 = (None, e8) \<and>
              fst (validateEngine e8) \<noteq> None \<longrightarrow>
              compile hooks rcp opts e = (fst (validateEngine e8), e8))"
proof (intro conjI impI allI)
  assume ok: "fst (compile hooks rcp opts e) = None"
  let ?e0 = "e\<lparr> recipe := Some rcp,
               engineContext := (engineContext e)\<lparr> compileOptions := opts \<rparr> \<rparr>"
  let ?final = "snd (compile hooks rcp opts e)"
  from ok have "compile hooks rcp opts e = (None, ?final)"
    by (simp add: prod_eq_iff)
  with assms obtain e1 e2 e3 e4 e5 e6 e7 e8 e9 where
    c: "initializeRecipeEngineContext hooks ?e0 = (None, e1)"
       "initializeTargetOrg hooks e1 = (None, e2)"
       "initializePreBuildStepGroups hooks e2 = (None, e3)"
       "initializePostBuildStepGroups hooks e3 = (None, e4)"
       "initializeSkipActions hooks e4 = (None, e5)"
       "initializeSkipGroups hooks e5 = (None, e6)"
       "initializeActionMap hooks e6 = (None, e7)"
       "initializeEngineResultDetail e7 = (None, e8)"
       "validateEngine e8 = (None, e9)"
       "compileAllTasks e9 = (None, ?final)"
    unfolding compile_def by (auto simp: andThen_returns)
  from c(9) have i9: "initialized (engineContext e9) = Some True"
    by (auto dest: validateEngine_returns)
  from c(10) have "engineContext ?final = engineContext e9"
    using compileAllTasks_context [of e9] by simp
  with i9 have ifin: "initialized (engineContext ?final) = Some True" by simp
  from compileAllTasks_success [OF c(10)] have "listrTasks ?final \<noteq> None"
    by auto
  with c i9 ifin show "\<exists>e1 e2 e3 e4 e5 e6 e7 e8 e9.
              initializeRecipeEngineContext hooks ?e0 = (None, e1) \<and>
              initializeTargetOrg hooks e1 = (None, e2) \<and>
              initializePreBuildStepGroups hooks e2 = (None, e3) \<and>
              initializePostBuildStepGroups hooks e3 = (None, e4) \<and>
              initializeSkipActions hooks e4 = (None, e5) \<and>
              initializeSkipGroups hooks e5 = (None, e6) \<and>
              initializeActionMap hooks e6 = (None, e7) \<and>
              initializeEngineResultDetail e7 = (None, e8) \<and>
              validateEngine e8 = (None, e9) \<and>
              initialized (engineContext e9) = Some True \<and>
              compileAllTasks e9 = (None, ?final) \<and>
              initialized (engineContext ?final) = Some True \<and>
              listrTasks ?final \<noteq> None"
    by blast
next
  fix e1 e2 e3 e4 e5 e6 e7 e8
  assume c: "initializeRecipeEngineContext hooks
                (e\<lparr> recipe := Some rcp,
                    engineContext := (engineContext e)\<lparr> compileOptions := opts \<rparr> \<rparr>) = (None, e1) \<and>
              initializeTargetOrg hooks e1 = (None, e2) \<and>
              initializePreBuildStepGroups hooks e2 = (None, e3) \<and>
              initializePostBuildStepGroups hooks e3 = (None, e4) \<and>
              initializeSkipActions hooks e4 = (None, e5) \<and>
              initializeSkipGroups hooks e5 = (None, e6) \<and>
              initializeActionMap hooks e6 = (None, e7) \<and>
              initializeEngineResultDetail e7 = (None, e8) \<and>
              fst (validateEngine e8) \<noteq> None"
  then have "snd (validateEngine e8) = e8" by (simp add: validateEngine_throws)
  then have v: "validateEngine e8 = (fst (validateEngine e8), e8)"
    by (simp add: prod_eq_iff)
  from c obtain x where x: "fst (validateEngine e8) = Some x" by auto
  have "andThen validateEngine compileAllTasks e8 = (fst (validateEngine e8), e8)"
    using v x by (simp add: andThen_def split: prod.splits)
  with assms c show "compile hooks rcp opts e = (fst (validateEngine e8), e8)"
    unfolding compile_def by (simp add: andThen_step)
qed

theorem compile_initializes_in_order_witness:
  "validated (demoRecipe [groupA, groupB]) = Some True
   \<and> fst (compile (demoHooks [''B''] [] succeedingAction) (demoRecipe [groupA, groupB]) JNull
            demoEngine) = None
   \<and> initialized (engineContext compiledDemo) = Some True
   \<and> listrTasks compiledDemo \<noteq> None
   \<and> compile emptyRegistryHooks (demoRecipe [groupA]) JNull demoEngine
       = (Some (ThrownError (ERROR_INVALID_ENGINE ''actionExecutorMap'')),
          snd (compile emptyRegistryHooks (demoRecipe [groupA]) JNull demoEngine))
   \<and> initialized (engineContext (snd (compile emptyRegistryHooks (demoRecipe [groupA]) JNull
                                         demoEngine))) = Some False
   \<and> listrTasks (snd (compile emptyRegistryHooks (demoRecipe [groupA]) JNull demoEngine)) = None"
proof -
  have v: "validated (demoRecipe [groupA, groupB]) = Some True"
    by (simp add: demoRecipe_def)
  have ok: "fst (compile (demoHooks [''B''] [] succeedingAction) (demoRecipe [groupA, groupB])
                   JNull demoEngine) = None"
    by (rule compiledDemo_ok)
  from compile_initializes_in_order [OF v, of "demoHooks [''B''] [] succeedingAction" JNull demoEngine] ok
  have fin: "initialized (engineContext compiledDemo) = Some True \<and> listrTasks compiledDemo \<noteq> None"
    unfolding compiledDemo_def by blast
  have bad: "compile emptyRegistryHooks (demoRecipe [groupA]) JNull demoEngine
       = (Some (ThrownError (ERROR_INVALID_ENGINE ''actionExecutorMap'')),
          snd (compile emptyRegistryHooks (demoRecipe [groupA]) JNull demoEngine))
   \<and> initialized (engineContext (snd (compile emptyRegistryHooks (demoRecipe [groupA]) JNull
                                         demoEngine))) = Some False
   \<and> listrTasks (snd (compile emptyRegistryHooks (demoRecipe [groupA]) JNull demoEngine)) = None"
    by (simp add: emptyRegistryHooks_def demo_defs)
  from v ok fin bad show ?thesis by blast
qed

lemma validateEngine_rejects_empty_registry:
  "actionExecutorMap e = Some m \<Longrightarrow> mapSize m < 1 \<Longrightarrow>
     validateEngine e = (Some (ThrownError (ERROR_INVALID_ENGINE ''actionExecutorMap'')), e)"
  by (simp add: validateEngine_def throwError_def)

lemma initializeEngineResultDetail_returns:
  "initializeEngineResultDetail e7 = (None, e8) \<Longrightarrow>
     (\<exists>m. actionExecutorMap e7 = Some m) \<and>
     actionExecutorMap e8 = actionExecutorMap e7 \<and>
     engineContext e8 = engineContext e7 \<and> listrTasks e8 = listrTasks e7"
  by (auto simp: initializeEngineResultDetail_def Let_def split: option.splits)

lemma initializeEngineResultDetail_absent:
  "actionExecutorMap e7 = None \<Longrightarrow>
     fst (initializeEngineResultDetail e7) = Some (ThrownError TypeError) \<and>
     engineContext (snd (initializeEngineResultDetail e7)) = engineContext e7 \<and>
     listrTasks (snd (initializeEngineResultDetail e7)) = listrTasks e7"
  by (simp add: initializeEngineResultDetail_def)

lemma validateEngine_passes_iff:
  "fst (validateEngine e) = None \<longleftrightarrow>
     \<not> (\<exists>m. actionExecutorMap e = Some m \<and> mapSize m < 1) \<and>
     preBuildStepGroups e \<noteq> None \<and> postBuildStepGroups e \<noteq> None \<and>
     (\<exists>org. targetOrg (engineContext e) = Some org \<and> \<not> falsy (TargetOrg.alias org)) \<and>
     skipActions (engineContext e) \<noteq> None \<and> skipGroups (engineContext e) \<noteq> None"
  by (auto simp: validateEngine_def throwError_def split: option.splits)

lemma compileAllTasks_registry:
  "actionExecutorMap (snd (compileAllTasks e)) = actionExecutorMap e"
  by (auto simp: compileAllTasks_def throwError_def split: option.splits)

text \<open>
  Claim C6.  \<^verbatim>\<open>validateEngine\<close> runs in \<^verbatim>\<open>compile\<close> only, right after the eight
  initialization steps, the last of which reads the keys of the action registry.  On
  every engine that reaches it the registry exists, and \<^verbatim>\<open>validateEngine\<close> returns
  exactly when the registry holds at least one action, the two lists of injected step
  groups are arrays, the target org is set and has a non-empty alias, and the two skip
  lists are arrays; when a check fails it throws and leaves the engine as it was, not
  marked initialized.  An engine whose registry is absent or holds no action is never
  marked initialized: with an empty registry \<^verbatim>\<open>validateEngine\<close> throws
  \<open>ERROR_INVALID_ENGINE\<close>, with an absent one the eighth step has already thrown a
  \<^verbatim>\<open>TypeError\<close>; and every \<^verbatim>\<open>compile\<close> that returns ends with a registry that holds
  an action and with the engine marked initialized.
\<close>

theorem validateEngine_enforces_registry:
  "(initializeEngineResultDetail e7 = (None, e8) \<longrightarrow>
      (\<exists>m. actionExecutorMap e8 = Some m) \<and>
      (fst (validateEngine e8) = None \<longleftrightarrow>
         (\<exists>m. actionExecutorMap e8 = Some m \<and> 1 \<le> mapSize m) \<and>
         preBuildStepGroups e8 \<noteq> None \<and> postBuildStepGroups e8 \<noteq> None \<and>
         (\<exists>org. targetOrg (engineContext e8) = Some org \<and> \<not> falsy (TargetOrg.alias org)) \<and>
         skipActions (engineContext e8) \<noteq> None \<and> skipGroups (engineContext e8) \<noteq> None) \<and>
      (fst (validateEngine e8) \<noteq> None \<longrightarrow> snd (validateEngine e8) = e8) \<and>
      ((\<exists>m. actionExecutorMap e8 = Some m \<and> mapSize m < 1) \<longrightarrow>
         validateEngine e8 = (Some (ThrownError (ERROR_INVALID_ENGINE ''actionExecutorMap'')), e8)))
   \<and> (actionExecutorMap e7 = None \<longrightarrow>
        fst (andThen initializeEngineResultDetail validateEngine e7) = Some (ThrownError TypeError) \<and>
        initialized (engineContext (snd (andThen initializeEngineResultDetail validateEngine e7)))
          = initialized (engineContext e7))
   \<and> ((\<exists>m. actionExecutorMap e7 = Some m \<and> mapSize m < 1) \<longrightarrow>
        fst (andThen initializeEngineResultDetail validateEngine e7)
          = Some (ThrownError (ERROR_INVALID_ENGINE ''actionExecutorMap'')) \<and>
        initialized (engineContext (snd (andThen initializeEngineResultDetail validateEngine e7)))
          = initialized (engineContext e7))
   \<and> (validated rcp = Some True \<and> fst (compile hooks rcp opts e) = None \<longrightarrow>
        (\<exists>m. actionExecutorMap (snd (compile hooks rcp opts e)) = Some m \<and> 1 \<le> mapSize m) \<and>
        initialized (engineContext (snd (compile hooks rcp opts e))) = Some True)"
proof (intro conjI impI)
  assume s: "initializeEngineResultDetail e7 = (None, e8)"
  from initializeEngineResultDetail_returns [OF s]
  obtain m where m: "actionExecutorMap e8 = Some m" by auto
  then show "\<exists>m. actionExecutorMap e8 = Some m" by blast
  from m show "fst (validateEngine e8) = None \<longleftrightarrow>
         (\<exists>m. actionExecutorMap e8 = Some m \<and> 1 \<le> mapSize m) \<and>
         preBuildStepGroups e8 \<noteq> None \<and> postBuildStepGroups e8 \<noteq> None \<and>
         (\<exists>org. targetOrg (engineContext e8) = Some org \<and> \<not> falsy (TargetOrg.alias org)) \<and>
         skipActions (engineContext e8) \<noteq> None \<and> skipGroups (engineContext e8) \<noteq> None"
    unfolding validateEngine_passes_iff by auto
next
  assume "initializeEngineResultDetail e7 = (None, e8)" "fst (validateEngine e8) \<noteq> None"
  then show "snd (validateEngine e8) = e8" by (simp add: validateEngine_throws)
next
  assume "initializeEngineResultDetail e7 = (None, e8)"
    "\<exists>m. actionExecutorMap e8 = Some m \<and> mapSize m < 1"
  then show "validateEngine e8 = (Some (ThrownError (ERROR_INVALID_ENGINE ''actionExecutorMap'')), e8)"
    by (auto simp: validateEngine_rejects_empty_registry)
next
  assume a: "actionExecutorMap e7 = None"
  obtain x s where xs: "initializeEngineResultDetail e7 = (x, s)" by (cases "initializeEngineResultDetail e7")
  with initializeEngineResultDetail_absent [OF a]
  have "x = Some (ThrownError TypeError)" "engineContext s = engineContext e7" by simp_all
  with xs have r: "andThen initializeEngineResultDetail validateEngine e7 = (Some (ThrownError TypeError), s)"
    by (simp add: andThen_def)
  from r show "fst (andThen initializeEngineResultDetail validateEngine e7) = Some (ThrownError TypeError)"
    by simp
  from r \<open>engineContext s = engineContext e7\<close>
  show "initialized (engineContext (snd (andThen initializeEngineResultDetail validateEngine e7)))
          = initialized (engineContext e7)"
    by simp
next
  assume "\<exists>m. actionExecutorMap e7 = Some m \<and> mapSize m < 1"
  then obtain m where m: "actionExecutorMap e7 = Some m" "mapSize m < 1" by blast
  then obtain e8 where s: "initializeEngineResultDetail e7 = (None, e8)"
    by (simp add: initializeEngineResultDetail_def Let_def)
  from initializeEngineResultDetail_returns [OF s] m
  have m8: "actionExecutorMap e8 = Some m" and c8: "engineContext e8 = engineContext e7" by simp_all
  from validateEngine_rejects_empty_registry [OF m8 m(2)] s
  have r: "andThen initializeEngineResultDetail validateEngine e7
             = (Some (ThrownError (ERROR_INVALID_ENGINE ''actionExecutorMap'')), e8)"
    by (simp add: andThen_def)
  from r show "fst (andThen initializeEngineResultDetail validateEngine e7)
          = Some (ThrownError (ERROR_INVALID_ENGINE ''actionExecutorMap''))" by simp
  from r c8 show "initialized (engineContext (snd (andThen initializeEngineResultDetail validateEngine e7)))
          = initialized (engineContext e7)" by simp
next
  assume a: "validated rcp = Some True \<and> fst (compile hooks rcp opts e) = None"
  let ?final = "snd (compile hooks rcp opts e)"
  from a have "compile hooks rcp opts e = (None, ?final)" by (simp add: prod_eq_iff)
  with a obtain e7 e8 e9 where
    c: "initializeEngineResultDetail e7 = (None, e8)" "validateEngine e8 = (None, e9)"
       "compileAllTasks e9 = (None, ?final)"
    unfolding compile_def by (auto simp: andThen_returns)
  from initializeEngineResultDetail_returns [OF c(1)]
  obtain m where m: "actionExecutorMap e8 = Some m" by auto
  from c(2) have "fst (validateEngine e8) = None" by simp
  with m have sz: "1 \<le> mapSize m" unfolding validateEngine_passes_iff by auto
  from validateEngine_returns [OF c(2)] m have m9: "actionExecutorMap e9 = Some m"
    and i9: "initialized (engineContext e9) = Some True" by simp_all
  from c(3) compileAllTasks_registry [of e9] compileAllTasks_context [of e9]
  have "actionExecutorMap ?final = actionExecutorMap e9" "engineContext ?final = engineContext e9"
    by simp_all
  with m9 i9 sz show "\<exists>m. actionExecutorMap ?final = Some m \<and> 1 \<le> mapSize m" 
    and "initialized (engineContext ?final) = Some True" by simp_all
qed

theorem validateEngine_enforces_registry_witness:
  "initializeEngineResultDetail emptyRegistryEngine
     = (None, snd (initializeEngineResultDetail emptyRegistryEngine))
   \<and> validateEngine (snd (initializeEngineResultDetail emptyRegistryEngine))
       = (Some (ThrownError (ERROR_INVALID_ENGINE ''actionExecutorMap'')),
          snd (initializeEngineResultDetail emptyRegistryEngine))
   \<and> actionExecutorMap noRegistryEngine = None
   \<and> fst (andThen initializeEngineResultDetail validateEngine noRegistryEngine)
       = Some (ThrownError TypeError)
   \<and> initialized (engineContext
         (snd (andThen initializeEngineResultDetail validateEngine noRegistryEngine))) = None
   \<and> validated (demoRecipe [groupA, groupB]) = Some True
   \<and> fst (compile (demoHooks [''B''] [] succeedingAction) (demoRecipe [groupA, groupB]) JNull
            demoEngine) = None
   \<and> (\<exists>m. actionExecutorMap compiledDemo = Some m \<and> 1 \<le> mapSize m)"
proof -
  have s: "initializeEngineResultDetail emptyRegistryEngine
     = (None, snd (initializeEngineResultDetail emptyRegistryEngine))"
    by (simp add: emptyRegistryEngine_def noRegistryEngine_def demo_defs)
  have sz: "\<exists>m. actionExecutorMap (snd (initializeEngineResultDetail emptyRegistryEngine)) = Some m
                \<and> mapSize m < 1"
    by (simp add: emptyRegistryEngine_def noRegistryEngine_def demo_defs)
  have n: "actionExecutorMap noRegistryEngine = None"
    by (simp add: noRegistryEngine_def demo_defs)
  have i: "initialized (engineContext noRegistryEngine) = None"
    by (simp add: noRegistryEngine_def demo_defs)
  have v: "validated (demoRecipe [groupA, groupB]) = Some True"
    by (simp add: demoRecipe_def)
  note t = validateEngine_enforces_registry
             [where ?e7.0 = emptyRegistryEngine
                and ?e8.0 = "snd (initializeEngineResultDetail emptyRegistryEngine)"
                and rcp = "demoRecipe [groupA, groupB]"
                and hooks = "demoHooks [''B''] [] succeedingAction" and opts = JNull
                and e = demoEngine]
  note u = validateEngine_enforces_registry
             [where ?e7.0 = noRegistryEngine and ?e8.0 = noRegistryEngine
                and rcp = "demoRecipe [groupA, groupB]"
                and hooks = "demoHooks [''B''] [] succeedingAction" and opts = JNull
                and e = demoEngine]
  from t s sz have a: "validateEngine (snd (initializeEngineResultDetail emptyRegistryEngine))
       = (Some (ThrownError (ERROR_INVALID_ENGINE ''actionExecutorMap'')),
          snd (initializeEngineResultDetail emptyRegistryEngine))"
    by blast
  from u n i have b: "fst (andThen initializeEngineResultDetail validateEngine noRegistryEngine)
       = Some (ThrownError TypeError)
   \<and> initialized (engineContext
         (snd (andThen initializeEngineResultDetail validateEngine noRegistryEngine))) = None"
    by simp
  from t v compiledDemo_ok
  have c: "\<exists>m. actionExecutorMap compiledDemo = Some m \<and> 1 \<le> mapSize m"
    unfolding compiledDemo_def by blast
  from s a n b v compiledDemo_ok c show ?thesis by blast
qed


section \<open>Properties of recipe validation\<close>

lemma member_not_Nil: "x \<in> set xs \<Longrightarrow> xs \<noteq> []"
  by auto

lemma pushInvalid_filter:
  "pushInvalid r ks = filter (\<lambda>k. falsy (getProp r k)) ks"
  by (induction ks) auto

text \<open>
  Claim C5.  \<^verbatim>\<open>validateTopLevelProperties\<close> tests all eight required keys in one pass
  and, when at least one of them is missing or empty, throws one
  \<open>ERROR_INVALID_RECIPE\<close> that lists every such key, in the order of the checks; when
  none is, it returns.  "Missing or empty" is the source's test \<^verbatim>\<open>! value\<close>: undefined,
  null, the empty string (and 0 and false).  In particular \<^verbatim>\<open>read\<close> of a recipe
  without \<open>options\<close> and \<open>handlers\<close> fails with one error that lists both.
\<close>

theorem top_level_validation_names_every_missing_key:
  "validateTopLevelProperties r =
     (if \<exists>k \<in> set topLevelKeys. falsy (getProp r k)
        then Some (ERROR_INVALID_RECIPE
                     (MissingSettings (filter (\<lambda>k. falsy (getProp r k)) topLevelKeys)))
      else None)
   \<and> (falsy (getProp r ''options'') \<and> falsy (getProp r ''handlers'') \<longrightarrow>
        (\<exists>ks. (read rt engineValidateRecipe (Some r) :: error + 'w SfdxFalconRecipe)
                 = Inl (ERROR_INVALID_RECIPE (MissingSettings ks))
              \<and> ''options'' \<in> set ks \<and> ''handlers'' \<in> set ks
              \<and> set ks = {k \<in> set topLevelKeys. falsy (getProp r k)}))"
proof (intro conjI impI)
  show "validateTopLevelProperties r =
     (if \<exists>k \<in> set topLevelKeys. falsy (getProp r k)
        then Some (ERROR_INVALID_RECIPE
                     (MissingSettings (filter (\<lambda>k. falsy (getProp r k)) topLevelKeys)))
      else None)"
    by (auto simp: validateTopLevelProperties_def pushInvalid_filter Let_def filter_empty_conv)
next
  assume a: "falsy (getProp r ''options'') \<and> falsy (getProp r ''handlers'')"
  let ?ks = "filter (\<lambda>k. falsy (getProp r k)) topLevelKeys"
  have o: "''options'' \<in> set ?ks" and h: "''handlers'' \<in> set ?ks"
    using a by (simp_all add: topLevelKeys_def)
  from o have "?ks \<noteq> []" by (rule member_not_Nil)
  then have "validateTopLevelProperties r = Some (ERROR_INVALID_RECIPE (MissingSettings ?ks))"
    by (simp add: validateTopLevelProperties_def pushInvalid_filter Let_def)
  then have "(read rt engineValidateRecipe (Some r) :: error + 'w SfdxFalconRecipe)
               = Inl (ERROR_INVALID_RECIPE (MissingSettings ?ks))"
    by (simp add: read_def recipe_validate_def)
  with o h show "\<exists>ks. (read rt engineValidateRecipe (Some r) :: error + 'w SfdxFalconRecipe)
                 = Inl (ERROR_INVALID_RECIPE (MissingSettings ks))
              \<and> ''options'' \<in> set ks \<and> ''handlers'' \<in> set ks
              \<and> set ks = {k \<in> set topLevelKeys. falsy (getProp r k)}"
    by auto
qed

theorem top_level_validation_names_every_missing_key_witness:
  "falsy (getProp recipeWithoutOptionsAndHandlers ''options'')
   \<and> falsy (getProp recipeWithoutOptionsAndHandlers ''handlers'')
   \<and> validateTopLevelProperties recipeWithoutOptionsAndHandlers
       = Some (ERROR_INVALID_RECIPE (MissingSettings [''options'', ''handlers'']))
   \<and> (read demoRecipeTypes (\<lambda>r. None) (Some recipeWithoutOptionsAndHandlers)
         :: error + unit SfdxFalconRecipe)
       = Inl (ERROR_INVALID_RECIPE (MissingSettings [''options'', ''handlers'']))"
  using top_level_validation_names_every_missing_key
          [of recipeWithoutOptionsAndHandlers demoRecipeTypes "\<lambda>r. None", where ?'w = unit]
  by (simp add: recipeWithoutOptionsAndHandlers_def topLevelKeys_def read_def recipe_validate_def
        validateTopLevelProperties_def)

lemma notNonEmptyString_iff: "notNonEmptyString v = (\<not> nonEmptyString v)"
  by (cases v) auto

lemma notBoolean_iff: "notBoolean v = (\<forall>b. v \<noteq> JBool b)"
  by (cases v) auto

text \<open>
  Claim C9.  \<^verbatim>\<open>validateTargetOrg\<close> accepts a target org exactly when \<open>orgName\<close>,
  \<open>alias\<close> and \<open>description\<close> are non-empty strings, \<open>isScratchOrg\<close> is a boolean,
  \<open>scratchDefJson\<close> is a non-empty string whenever \<open>isScratchOrg\<close> is true and
  \<open>orgReqsJson\<close> is a non-empty string whenever \<open>isScratchOrg\<close> is false; in every
  other case it throws an \<open>ERROR_INVALID_RECIPE\<close>.  The loop over the target orgs of a
  recipe accepts the list exactly when it accepts every entry.
\<close>

theorem validateTargetOrg_accepts_exactly:
  "(validateTargetOrg org = None \<longleftrightarrow>
      nonEmptyString (orgName org) \<and> nonEmptyString (TargetOrg.alias org) \<and>
      nonEmptyString (TargetOrg.description org) \<and>
      (\<exists>b. isScratchOrg org = JBool b) \<and>
      (isScratchOrg org = JBool True \<longrightarrow> nonEmptyString (scratchDefJson org)) \<and>
      (isScratchOrg org = JBool False \<longrightarrow> nonEmptyString (orgReqsJson org)))
   \<and> (validateTargetOrg org \<noteq> None \<longrightarrow>
        (\<exists>k. validateTargetOrg org = Some (ERROR_INVALID_RECIPE (TargetOrgKey k))))
   \<and> (validateTargetOrgs orgs = None \<longleftrightarrow> (\<forall>t \<in> set orgs. validateTargetOrg t = None))"
proof (intro conjI)
  show "validateTargetOrg org = None \<longleftrightarrow>
      nonEmptyString (orgName org) \<and> nonEmptyString (TargetOrg.alias org) \<and>
      nonEmptyString (TargetOrg.description org) \<and>
      (\<exists>b. isScratchOrg org = JBool b) \<and>
      (isScratchOrg org = JBool True \<longrightarrow> nonEmptyString (scratchDefJson org)) \<and>
      (isScratchOrg org = JBool False \<longrightarrow> nonEmptyString (orgReqsJson org))"
    by (auto simp: validateTargetOrg_def notNonEmptyString_iff notBoolean_iff)
  show "validateTargetOrg org \<noteq> None \<longrightarrow>
        (\<exists>k. validateTargetOrg org = Some (ERROR_INVALID_RECIPE (TargetOrgKey k)))"
    by (auto simp: validateTargetOrg_def)
  show "validateTargetOrgs orgs = None \<longleftrightarrow> (\<forall>t \<in> set orgs. validateTargetOrg t = None)"
    by (induction orgs) (auto split: option.splits)
qed

theorem validateTargetOrg_accepts_exactly_witness:
  "validateTargetOrg demoOrg = None
   \<and> isScratchOrg demoOrg = JBool True \<and> nonEmptyString (scratchDefJson demoOrg)
   \<and> validateTargetOrg (demoOrg\<lparr> scratchDefJson := JStr [] \<rparr>)
       = Some (ERROR_INVALID_RECIPE (TargetOrgKey ''scratchDefJson''))
   \<and> validateTargetOrg (demoOrg\<lparr> isScratchOrg := JBool False \<rparr>)
       = Some (ERROR_INVALID_RECIPE (TargetOrgKey ''orgReqsJson''))
   \<and> validateTargetOrgs [demoOrg, demoOrg\<lparr> isScratchOrg := JStr ''yes'' \<rparr>]
       = Some (ERROR_INVALID_RECIPE (TargetOrgKey ''isScratchOrg''))"
  using validateTargetOrg_accepts_exactly [of demoOrg "[demoOrg]"]
        validateTargetOrg_accepts_exactly [of "demoOrg\<lparr> scratchDefJson := JStr [] \<rparr>" "[]"]
  by (simp add: demoOrg_def validateTargetOrg_def)

section \<open>Properties of execution\<close>

text \<open>
  Claim C7.  For a step whose action name is not a key of the engine's action registry,
  \<^verbatim>\<open>executeStep\<close> rejects with \<open>ERROR_UNKNOWN_ACTION\<close> carrying that action name (and the
  recipe type of the engine's recipe), and no action is executed: the world outside
  is as it was, also after the whole sub task of that step.
\<close>

theorem executeStep_unknown_action:
  assumes "actionExecutorMap e = Some m"
    and "action recipeStep \<notin> fst ` set m"
    and "recipe e = Some r"
  shows "executeStep e recipeStep w =
           (Rejected (ThrownError (ERROR_UNKNOWN_ACTION (action recipeStep) (recipeType r))), w)
         \<and> snd (snd (runSubTask \<lparr> sub_title = stepName recipeStep, task_step = recipeStep \<rparr> e w)) = w"
proof -
  from assms(2) have "map_of m (action recipeStep) = None"
    by (simp add: map_of_eq_None_iff)
  with assms(1,3) have x: "executeStep e recipeStep w =
           (Rejected (ThrownError (ERROR_UNKNOWN_ACTION (action recipeStep) (recipeType r))), w)"
    by (simp add: executeStep_def)
  then have "snd (snd (runSubTask \<lparr> sub_title = stepName recipeStep, task_step = recipeStep \<rparr> e w)) = w"
    by (simp add: runSubTask_def split: prod.splits)
  with x show ?thesis by simp
qed

lemma compiledDemo_registry:
  "actionExecutorMap compiledDemo = Some [(''deploy-metadata'', succeedingAction)]
   \<and> recipe compiledDemo = Some (demoRecipe [groupA, groupB])"
  by (simp add: compiledDemo_def demo_defs)

theorem executeStep_unknown_action_witness:
  "actionExecutorMap compiledDemo = Some [(''deploy-metadata'', succeedingAction)]
   \<and> action (demoStep ''s9'' ''install-package'') \<notin> fst ` set [(''deploy-metadata'', succeedingAction)]
   \<and> recipe compiledDemo = Some (demoRecipe [groupA, groupB])
   \<and> executeStep compiledDemo (demoStep ''s9'' ''install-package'') () =
        (Rejected (ThrownError (ERROR_UNKNOWN_ACTION ''install-package'' (JStr ''appx:demo-recipe''))), ())"
proof -
  have a: "actionExecutorMap compiledDemo = Some [(''deploy-metadata'', succeedingAction)]"
    and r: "recipe compiledDemo = Some (demoRecipe [groupA, groupB])"
    using compiledDemo_registry by simp_all
  have k: "action (demoStep ''s9'' ''install-package'') \<notin> fst ` set [(''deploy-metadata'', succeedingAction)]"
    by (simp add: demoStep_def)
  from executeStep_unknown_action [OF a k r, of "()"] a k r
  show ?thesis by (simp add: demoStep_def demoRecipe_def)
qed

text \<open>
  Claim C8.  \<^verbatim>\<open>SfdxFalconRecipe.execute\<close> throws \<open>ERROR_RECIPE_NOT_COMPILED\<close> when the
  recipe's \<open>compiled\<close> flag is not true, and \<^verbatim>\<open>AppxRecipeEngine.execute\<close> throws it
  when no task plan has been compiled; in both cases nothing else happens: the recipe,
  the engine and the world outside are unchanged.  A recipe that \<^verbatim>\<open>read\<close> has just
  made is not compiled, an engine that the constructor has just made has no plan, and
  a \<^verbatim>\<open>compile\<close> of the recipe that throws leaves the flag as it was.
\<close>

theorem execute_requires_compile:
  "(compiled r \<noteq> Some True \<longrightarrow>
      recipe_execute hooks opts r w = (Threw (ThrownError ERROR_RECIPE_NOT_COMPILED), r, w))
   \<and> (listrTasks e = None \<longrightarrow>
        engine_execute hooks opts e w = (Threw (ThrownError ERROR_RECIPE_NOT_COMPILED), e, w))
   \<and> ((read rt engineValidateRecipe file :: error + 'w SfdxFalconRecipe) = Inr r0 \<longrightarrow>
        compiled r0 \<noteq> Some True)
   \<and> listrTasks (newEngine engineName rName :: 'w AppxRecipeEngine) = None
   \<and> (fst (recipe_compile rt compileRecipe copts r) \<noteq> None \<longrightarrow>
        compiled (snd (recipe_compile rt compileRecipe copts r)) = compiled r)"
proof (intro conjI impI)
  assume "compiled r \<noteq> Some True"
  then show "recipe_execute hooks opts r w = (Threw (ThrownError ERROR_RECIPE_NOT_COMPILED), r, w)"
    by (simp add: recipe_execute_def)
next
  assume "listrTasks e = None"
  then show "engine_execute hooks opts e w = (Threw (ThrownError ERROR_RECIPE_NOT_COMPILED), e, w)"
    by (simp add: engine_execute_def)
next
  assume "(read rt engineValidateRecipe file :: error + 'w SfdxFalconRecipe) = Inr r0"
  then show "compiled r0 \<noteq> Some True"
    by (auto simp: read_def split: option.splits)
next
  show "listrTasks (newEngine engineName rName :: 'w AppxRecipeEngine) = None"
    by (simp add: newEngine_def)
next
  assume "fst (recipe_compile rt compileRecipe copts r) \<noteq> None"
  then show "compiled (snd (recipe_compile rt compileRecipe copts r)) = compiled r"
    by (auto simp: recipe_compile_def throwError_def split: if_splits sum.splits)
qed

lemma readDemoRecipe_read:
  "read demoRecipeTypes (\<lambda>r. None) (Some demoRecipeFile) = Inr readDemoRecipe"
  by (simp add: readDemoRecipe_def read_def recipe_validate_def validateTopLevelProperties_def
        topLevelKeys_def demoRecipeFile_def demoRecipeTypes_def)

theorem execute_requires_compile_witness:
  "compiled readDemoRecipe \<noteq> Some True
   \<and> recipe_execute (demoHooks [] [] succeedingAction) JNull readDemoRecipe ()
       = (Threw (ThrownError ERROR_RECIPE_NOT_COMPILED), readDemoRecipe, ())
   \<and> listrTasks demoEngine = None
   \<and> engine_execute (demoHooks [] [] succeedingAction) JNull demoEngine ()
       = (Threw (ThrownError ERROR_RECIPE_NOT_COMPILED), demoEngine, ())
   \<and> fst (recipe_compile demoRecipeTypes (\<lambda>m c. Inl (ThrownError TypeError)) JNull readDemoRecipe)
       \<noteq> None
   \<and> compiled (snd (recipe_compile demoRecipeTypes (\<lambda>m c. Inl (ThrownError TypeError)) JNull
                       readDemoRecipe)) \<noteq> Some True"
proof -
  note t = execute_requires_compile
             [of readDemoRecipe "demoHooks [] [] succeedingAction" JNull "()" demoEngine
                 demoRecipeTypes "\<lambda>r. None" "Some demoRecipeFile" readDemoRecipe
                 "''AppxDemoConfigEngine''" "''demo''" "\<lambda>m c. Inl (ThrownError TypeError)" JNull]
  have c: "compiled readDemoRecipe \<noteq> Some True"
    using t readDemoRecipe_read by blast
  have l: "listrTasks demoEngine = None"
    by (simp add: demoEngine_def newEngine_def)
  have f: "fst (recipe_compile demoRecipeTypes (\<lambda>m c. Inl (ThrownError TypeError)) JNull readDemoRecipe)
       \<noteq> None"
    by (simp add: recipe_compile_def readDemoRecipe_def read_def recipe_validate_def
          validateTopLevelProperties_def topLevelKeys_def demoRecipeFile_def demoRecipeTypes_def)
  from t c l f show ?thesis by simp
qed

section \<open>Properties of the command layer\<close>

lemma init_result:
  assumes "sfdxFalconCommandInit env flags args nm ty = Inr (x, c)"
  shows "falconCommandResult c = newResult (falconCommandName c) COMMAND True False False
         \<and> commandExitCode (falconCommandResultDetail c) = 0"
  using assms
  by (auto simp: sfdxFalconCommandInit_def Let_def split: option.splits if_splits)

lemma addChild_no_bubbling:
  "bubbleError r = False \<Longrightarrow> bubbleFailure r = False \<Longrightarrow>
     addChild child r = (None, pushChild child r)"
  by (cases r) (simp add: addChild_def Let_def)

lemma pushChild_fields:
  "status (pushChild c r) = status r \<and> rtype (pushChild c r) = rtype r
   \<and> children (pushChild c r) = children r @ [c] \<and> detail (pushChild c r) = detail r
   \<and> bubbleError (pushChild c r) = bubbleError r \<and> bubbleFailure (pushChild c r) = bubbleFailure r
   \<and> errObj (pushChild c r) = errObj r \<and> name (pushChild c r) = name r"
  by (cases r) simp

lemma setDetail_fields:
  "status (setDetail d r) = status r \<and> rtype (setDetail d r) = rtype r
   \<and> children (setDetail d r) = children r \<and> detail (setDetail d r) = Some d
   \<and> bubbleError (setDetail d r) = bubbleError r \<and> bubbleFailure (setDetail d r) = bubbleFailure r
   \<and> errObj (setDetail d r) = errObj r \<and> name (setDetail d r) = name r"
  by (cases r) simp

lemma result_error_open:
  "\<not> terminal (status r) \<Longrightarrow>
     \<exists>r'. result_error eo r = Inr r' \<and> status r' = ERROR \<and> errObj r' = eo
        \<and> rtype r' = rtype r \<and> children r' = children r \<and> detail r' = detail r
        \<and> name r' = name r"
  by (cases r) (simp add: result_error_def finishResult_def)

lemma result_success_open:
  "\<not> terminal (status r) \<Longrightarrow>
     \<exists>r'. result_success (Some d) r = Inr r' \<and> status r' = SUCCESS
        \<and> rtype r' = rtype r \<and> children r' = children r \<and> detail r' = Some d"
  by (cases r) (simp add: result_success_def finishResult_def)

text \<open>
  Claim C10.  \<^verbatim>\<open>sfdxFalconCommandInit\<close> constructs the COMMAND result running, with
  \<open>bubbleError = false\<close> and \<open>bubbleFailure = false\<close>, so adding a child, whatever its
  status, never finalizes it.  The command layer finalizes it itself: \<^verbatim>\<open>onError\<close> wraps
  the rejected value into a result, sets the exit code of the command detail to 1,
  stores the detail, adds the wrapped result as a child and marks the COMMAND result
  ERROR with the wrapped result's \<open>errObj\<close>, then terminates with error; \<^verbatim>\<open>onSuccess\<close>
  adds the result as a child and marks the COMMAND result SUCCESS.
\<close>

theorem command_result_is_finalized_by_the_command:
  assumes "sfdxFalconCommandInit env flags args nm ty = Inr (x, c)"
  shows "bubbleError (falconCommandResult c) = False
       \<and> bubbleFailure (falconCommandResult c) = False
       \<and> rtype (falconCommandResult c) = COMMAND
       \<and> status (falconCommandResult c) = RUNNING
       \<and> (\<forall>child. \<exists>res. addChild child (falconCommandResult c) = (None, res)
                      \<and> status res = RUNNING \<and> children res = [child])
       \<and> (\<forall>rejected. \<exists>c'.
             command_onError rejected c =
               (TerminateWithError
                  (wrapRejectedPromise rejected ''Promise Returned (REJECTED)'' UNKNOWN)
                  (falconCommandName c) (falconDebugErrorFlag c), c')
             \<and> status (falconCommandResult c') = ERROR
             \<and> errObj (falconCommandResult c') =
                 errObj (wrapRejectedPromise rejected ''Promise Returned (REJECTED)'' UNKNOWN)
             \<and> commandExitCode (falconCommandResultDetail c') = 1
             \<and> detail (falconCommandResult c') = Some (CommandDetail (falconCommandResultDetail c'))
             \<and> children (falconCommandResult c') =
                 [wrapRejectedPromise rejected ''Promise Returned (REJECTED)'' UNKNOWN])
       \<and> (\<forall>res. \<exists>c'.
             command_onSuccess res c = (None, c')
             \<and> status (falconCommandResult c') = SUCCESS
             \<and> children (falconCommandResult c') = [res]
             \<and> detail (falconCommandResult c') = Some (CommandDetail (falconCommandResultDetail c)))"
proof -
  let ?r = "falconCommandResult c"
  from init_result [OF assms] have r: "?r = newResult (falconCommandName c) COMMAND True False False"
    by simp
  then have f: "bubbleError ?r = False" "bubbleFailure ?r = False" "rtype ?r = COMMAND"
    "status ?r = RUNNING" "children ?r = []"
    by (simp_all add: newResult_def)
  have add: "\<forall>child. \<exists>res. addChild child ?r = (None, res)
                      \<and> status res = RUNNING \<and> children res = [child]"
    using f by (simp add: addChild_no_bubbling pushChild_fields)
  have err: "\<forall>rejected. \<exists>c'.
             command_onError rejected c =
               (TerminateWithError
                  (wrapRejectedPromise rejected ''Promise Returned (REJECTED)'' UNKNOWN)
                  (falconCommandName c) (falconDebugErrorFlag c), c')
             \<and> status (falconCommandResult c') = ERROR
             \<and> errObj (falconCommandResult c') =
                 errObj (wrapRejectedPromise rejected ''Promise Returned (REJECTED)'' UNKNOWN)
             \<and> commandExitCode (falconCommandResultDetail c') = 1
             \<and> detail (falconCommandResult c') = Some (CommandDetail (falconCommandResultDetail c'))
             \<and> children (falconCommandResult c') =
                 [wrapRejectedPromise rejected ''Promise Returned (REJECTED)'' UNKNOWN]"
  proof
    fix rejected
    let ?rr = "wrapRejectedPromise rejected ''Promise Returned (REJECTED)'' UNKNOWN"
    let ?d = "(falconCommandResultDetail c)\<lparr> commandExitCode := 1 \<rparr>"
    let ?r1 = "setDetail (CommandDetail ?d) ?r"
    let ?r2 = "pushChild ?rr ?r1"
    have a: "addChild ?rr ?r1 = (None, ?r2)"
      using f by (simp add: addChild_no_bubbling setDetail_fields)
    have "\<not> terminal (status ?r2)"
      using f by (simp add: pushChild_fields setDetail_fields)
    from result_error_open [OF this, of "errObj ?rr"] obtain r3 where
      r3: "result_error (errObj ?rr) ?r2 = Inr r3" "status r3 = ERROR" "errObj r3 = errObj ?rr"
          "children r3 = children ?r2" "detail r3 = detail ?r2"
      by blast
    have "command_onError rejected c =
            (TerminateWithError ?rr (falconCommandName c) (falconDebugErrorFlag c),
             c\<lparr> falconCommandResultDetail := ?d, falconCommandResult := r3 \<rparr>)"
      using a r3(1) by (simp add: command_onError_def Let_def)
    moreover have "children r3 = [?rr]" "detail r3 = Some (CommandDetail ?d)"
      using r3 f by (simp_all add: pushChild_fields setDetail_fields)
    ultimately show "\<exists>c'.
             command_onError rejected c =
               (TerminateWithError ?rr (falconCommandName c) (falconDebugErrorFlag c), c')
             \<and> status (falconCommandResult c') = ERROR
             \<and> errObj (falconCommandResult c') = errObj ?rr
             \<and> commandExitCode (falconCommandResultDetail c') = 1
             \<and> detail (falconCommandResult c') = Some (CommandDetail (falconCommandResultDetail c'))
             \<and> children (falconCommandResult c') = [?rr]"
      using r3 by simp
  qed
  have suc: "\<forall>res. \<exists>c'.
             command_onSuccess res c = (None, c')
             \<and> status (falconCommandResult c') = SUCCESS
             \<and> children (falconCommandResult c') = [res]
             \<and> detail (falconCommandResult c') = Some (CommandDetail (falconCommandResultDetail c))"
  proof
    fix res
    let ?r1 = "pushChild res ?r"
    have a: "addChild res ?r = (None, ?r1)"
      using f by (simp add: addChild_no_bubbling)
    have "\<not> terminal (status ?r1)" using f by (simp add: pushChild_fields)
    from result_success_open [OF this, of "CommandDetail (falconCommandResultDetail c)"]
    obtain r2 where r2: "result_success (Some (CommandDetail (falconCommandResultDetail c))) ?r1 = Inr r2"
      "status r2 = SUCCESS" "children r2 = children ?r1"
      "detail r2 = Some (CommandDetail (falconCommandResultDetail c))"
      by blast
    have "command_onSuccess res c = (None, c\<lparr> falconCommandResult := r2 \<rparr>)"
      using a r2(1) by (simp add: command_onSuccess_def)
    then show "\<exists>c'.
             command_onSuccess res c = (None, c')
             \<and> status (falconCommandResult c') = SUCCESS
             \<and> children (falconCommandResult c') = [res]
             \<and> detail (falconCommandResult c') = Some (CommandDetail (falconCommandResultDetail c))"
      using r2 f by (simp add: pushChild_fields)
  qed
  from f add err suc show ?thesis by blast
qed

lemmas command_defs = sfdxFalconCommandInit_def demoEnv_def noFlags_def noArgs_def Let_def
  newResult_def

lemma demoCommand_init:
  "sfdxFalconCommandInit demoEnv noFlags noArgs (Some ''falcon:demo:clone'') APPX_PACKAGE
     = Inr (None, demoCommand)"
  by (simp add: demoCommand_def command_defs)

theorem command_result_is_finalized_by_the_command_witness:
  "sfdxFalconCommandInit demoEnv noFlags noArgs (Some ''falcon:demo:clone'') APPX_PACKAGE
     = Inr (None, demoCommand)
   \<and> status (falconCommandResult demoCommand) = RUNNING
   \<and> status (falconCommandResult
               (snd (command_onError (ThrownError (OtherError ''clone failed'')) demoCommand))) = ERROR
   \<and> commandExitCode (falconCommandResultDetail
               (snd (command_onError (ThrownError (OtherError ''clone failed'')) demoCommand))) = 1
   \<and> errObj (falconCommandResult
               (snd (command_onError (ThrownError (OtherError ''clone failed'')) demoCommand)))
       = Some (OtherError ''clone failed'')
   \<and> status (falconCommandResult
               (snd (command_onSuccess
                       (SfdxFalconResult ''clone'' RECIPE FAILURE None [] True True None)
                       demoCommand))) = SUCCESS"
proof -
  note t = command_result_is_finalized_by_the_command [OF demoCommand_init]
  from t have s: "status (falconCommandResult demoCommand) = RUNNING" by blast
  from t obtain c' where
    "command_onError (ThrownError (OtherError ''clone failed'')) demoCommand =
       (TerminateWithError
          (wrapRejectedPromise (ThrownError (OtherError ''clone failed''))
             ''Promise Returned (REJECTED)'' UNKNOWN)
          (falconCommandName demoCommand) (falconDebugErrorFlag demoCommand), c')"
    "status (falconCommandResult c') = ERROR"
    "errObj (falconCommandResult c') =
       errObj (wrapRejectedPromise (ThrownError (OtherError ''clone failed''))
                 ''Promise Returned (REJECTED)'' UNKNOWN)"
    "commandExitCode (falconCommandResultDetail c') = 1"
    by blast
  then have e: "status (falconCommandResult
               (snd (command_onError (ThrownError (OtherError ''clone failed'')) demoCommand))) = ERROR
   \<and> commandExitCode (falconCommandResultDetail
               (snd (command_onError (ThrownError (OtherError ''clone failed'')) demoCommand))) = 1
   \<and> errObj (falconCommandResult
               (snd (command_onError (ThrownError (OtherError ''clone failed'')) demoCommand)))
       = Some (OtherError ''clone failed'')"
    by simp
  from t obtain c'' where
    "command_onSuccess (SfdxFalconResult ''clone'' RECIPE FAILURE None [] True True None) demoCommand
       = (None, c'')"
    "status (falconCommandResult c'') = SUCCESS"
    by blast
  then have "status (falconCommandResult
               (snd (command_onSuccess
                       (SfdxFalconResult ''clone'' RECIPE FAILURE None [] True True None)
                       demoCommand))) = SUCCESS"
    by simp
  with demoCommand_init s e show ?thesis by blast
qed

section \<open>What the caller receives when execution fails\<close>


















lemmas run_defs = engine_execute_def startExecution_def endExecution_def listrRun_def
  runParentTask_def compileSubTasks_def runSubTask_def stepRejected_def executeStep_def
  engine_onError_def engine_onSuccess_def result_throw_def result_error_def
  result_failure_def result_success_def finishResult_def addChild_def


text \<open>A run in which an action rejects with a result in FAILURE status: the ENGINE
  result bubbles the failure, \<^verbatim>\<open>onError\<close> does not find the ERROR status it expects,
  and the caller receives the ENGINE result marked ERROR with the synthetic error.\<close>

lemma failing_run:
  "\<exists>res. fst (engine_execute (demoHooks [] [] failingAction) JNull failingDemo ())
       = Threw (ThrownResult res) \<and> rtype res = ENGINE \<and> status res = ERROR
       \<and> errObj res = Some (ERROR_UNEXPECTED_LISTR_RESULT ''AppxDemoConfigEngine:demo'')"
  by (simp add: failingDemo_def demo_defs run_defs failingAction_def)





end
